theory Spec2Isabelle
  imports Complex_Main "HOL-Library.Char_ord" "HOL-Library.List_Lexorder"
begin

section \<open>Python and numpy values\<close>

text \<open>
  The statistics tool (\<^verbatim>\<open>src/tools/statistics.py\<close>) is Python 2 code over numpy arrays.
  Numbers are modelled as exact reals: the model follows the arithmetic the code writes
  down and leaves the binary rounding of floats out. Exceptions are values of
  \<open>py_error\<close>; a function that can raise returns \<open>py_error + 'a\<close>.
\<close>

datatype py_error = KeyError | IndexError | ZeroDivisionError | TypeError | ValueError | OverflowError

text \<open>\<^verbatim>\<open>round(x, n)\<close> of Python 2: the closest multiple of \<open>10^-n\<close>, ties away from zero.\<close>

definition py_round :: "real \<Rightarrow> nat \<Rightarrow> real" where
  "py_round x n =
     (if 0 \<le> x then of_int \<lfloor>x * 10 ^ n + 1 / 2\<rfloor> / 10 ^ n
      else - (of_int \<lfloor>- x * 10 ^ n + 1 / 2\<rfloor> / 10 ^ n))"

text \<open>\<^verbatim>\<open>int(x)\<close> on a float: truncation toward zero.\<close>

definition py_int :: "real \<Rightarrow> int" where
  "py_int x = (if 0 \<le> x then \<lfloor>x\<rfloor> else \<lceil>x\<rceil>)"

text \<open>\<^verbatim>\<open>xs[i]\<close>: a negative index counts from the end, an index out of range raises.\<close>

definition py_index :: "'a list \<Rightarrow> int \<Rightarrow> py_error + 'a" where
  "py_index xs i =
     (if 0 \<le> i \<and> i < int (length xs) then Inr (xs ! nat i)
      else if i < 0 \<and> - int (length xs) \<le> i then Inr (xs ! nat (int (length xs) + i))
      else Inl IndexError)"

text \<open>\<^verbatim>\<open>x / y\<close> on two Python floats raises on a zero divisor.\<close>

definition py_truediv :: "real \<Rightarrow> real \<Rightarrow> py_error + real" where
  "py_truediv x y = (if y = 0 then Inl ZeroDivisionError else Inr (x / y))"

text \<open>
  A division whose numerator is a numpy scalar does not raise on a zero divisor: it
  yields \<^verbatim>\<open>inf\<close> or \<^verbatim>\<open>nan\<close>, which \<^verbatim>\<open>round\<close> hands on unchanged.
\<close>

datatype npfloat = Finite real | NonFinite

definition np_divide :: "real \<Rightarrow> real \<Rightarrow> npfloat" where
  "np_divide x y = (if y = 0 then NonFinite else Finite (x / y))"

fun np_divide_by :: "npfloat \<Rightarrow> real \<Rightarrow> npfloat" where
  "np_divide_by NonFinite y = NonFinite"
| "np_divide_by (Finite x) y = np_divide x y"

fun np_round :: "npfloat \<Rightarrow> nat \<Rightarrow> npfloat" where
  "np_round NonFinite n = NonFinite"
| "np_round (Finite x) n = Finite (py_round x n)"

text \<open>
  A masked array is a list of samples: the number stored and the mask bit (\<open>True\<close> for
  a missing or dry cell). \<^verbatim>\<open>np.asarray\<close> and plain arithmetic read the stored number.
\<close>

datatype sample = Sample (data: real) (mask: bool)

text \<open>\<^verbatim>\<open>np.take(a, idx)\<close>: one element per index, with Python's index rules.\<close>

fun np_take :: "'a list \<Rightarrow> int list \<Rightarrow> py_error + 'a list" where
  "np_take a [] = Inr []"
| "np_take a (k # ks) =
     (case py_index a k of
        Inl e \<Rightarrow> Inl e
      | Inr x \<Rightarrow> (case np_take a ks of Inl e \<Rightarrow> Inl e | Inr xs \<Rightarrow> Inr (x # xs)))"

text \<open>
  \<^verbatim>\<open>np.take(a, idx)\<close> where \<open>idx\<close> is the array \<^verbatim>\<open>np.array\<close> makes of a Python list: the
  array of the empty list holds floats, which \<^verbatim>\<open>np.take\<close> refuses as indices.
\<close>

definition np_take_array :: "'a list \<Rightarrow> int list \<Rightarrow> py_error + 'a list" where
  "np_take_array a idx = (if idx = [] then Inl TypeError else np_take a idx)"

text \<open>The first exception ends the computation: \<open>bind_err m f\<close> hands the value of \<open>m\<close> on
  to \<open>f\<close>, or the exception of \<open>m\<close> to the caller.\<close>

definition bind_err :: "py_error + 'a \<Rightarrow> ('a \<Rightarrow> py_error + 'b) \<Rightarrow> py_error + 'b" where
  "bind_err m f = (case m of Inl e \<Rightarrow> Inl e | Inr x \<Rightarrow> f x)"

text \<open>
  An elementwise operation on two arrays of one dimension. Arrays of one length are
  combined entry by entry; an array of length one is stretched to the length of the
  other; any other pair of lengths raises.
\<close>

definition np_binary :: "('a \<Rightarrow> 'b \<Rightarrow> 'c) \<Rightarrow> 'a list \<Rightarrow> 'b list \<Rightarrow> py_error + 'c list" where
  "np_binary f xs ys =
     (if length xs = length ys then Inr (map (\<lambda>(x, y). f x y) (zip xs ys))
      else if length ys = 1 then Inr (map (\<lambda>x. f x (ys ! 0)) xs)
      else if length xs = 1 then Inr (map (\<lambda>y. f (xs ! 0) y) ys)
      else Inl ValueError)"

text \<open>
  The same written into the first array (\<^verbatim>\<open>+=\<close>, \<^verbatim>\<open>-=\<close>, \<^verbatim>\<open>np.copyto\<close>): the result keeps
  the length of the first array, so only the second can be stretched.
\<close>

definition np_inplace :: "('a \<Rightarrow> 'b \<Rightarrow> 'a) \<Rightarrow> 'a list \<Rightarrow> 'b list \<Rightarrow> py_error + 'a list" where
  "np_inplace f acc xs =
     (if length xs = length acc then Inr (map (\<lambda>(c, x). f c x) (zip acc xs))
      else if length xs = 1 then Inr (map (\<lambda>c. f c (xs ! 0)) acc)
      else Inl ValueError)"

text \<open>
  Arithmetic on the entries of a masked array. \<^verbatim>\<open>clip\<close> works on the stored number and
  keeps the mask. A product with a number, and \<^verbatim>\<open>np.abs\<close>, leave the stored number of a
  masked entry as it is; \<open>ma_times\<close> is the number a product stores.
\<close>

definition ma_clip_min :: "sample \<Rightarrow> sample" where
  "ma_clip_min s = Sample (max (data s) 0) (mask s)"

definition ma_clip_max :: "sample \<Rightarrow> sample" where
  "ma_clip_max s = Sample (min (data s) 0) (mask s)"

definition ma_times :: "sample \<Rightarrow> real \<Rightarrow> real" where
  "ma_times s t = (if mask s then data s else data s * t)"

definition ma_abs :: "sample \<Rightarrow> sample" where
  "ma_abs s = (if mask s then s else Sample \<bar>data s\<bar> False)"

text \<open>
  \<^verbatim>\<open>np.maximum\<close> of a running maximum and a masked array is a masked array: an entry is
  masked where the array read is, and once masked it stays masked. \<open>None\<close> is a masked
  entry of the running maximum.
\<close>

definition ma_maximum :: "real option \<Rightarrow> sample \<Rightarrow> real option" where
  "ma_maximum m s = (case m of None \<Rightarrow> None | Some x \<Rightarrow> if mask s then None else Some (max x (data s)))"

text \<open>\<^verbatim>\<open>round(a[i], n)\<close> on an entry of a masked array: a masked entry becomes \<^verbatim>\<open>nan\<close>, which
  the table stores as null.\<close>

definition round_element :: "sample \<Rightarrow> nat \<Rightarrow> real option" where
  "round_element s n = (if mask s then None else Some (py_round (data s) n))"

text \<open>\<^verbatim>\<open>s.split(' ')\<close>: every single blank separates two tokens, which may be empty.\<close>

fun py_split :: "string \<Rightarrow> string list" where
  "py_split [] = [[]]"
| "py_split (c # cs) =
     (if c = CHR '' '' then [] # py_split cs
      else (case py_split cs of [] \<Rightarrow> [[c]] | t # ts \<Rightarrow> (c # t) # ts))"

text \<open>\<^verbatim>\<open>max(xs)\<close>: the first greatest element; an empty argument raises.\<close>

fun py_max :: "'a::linorder list \<Rightarrow> py_error + 'a" where
  "py_max [] = Inl ValueError"
| "py_max (x # xs) = Inr (foldl (\<lambda>m y. if m < y then y else m) x xs)"

text \<open>\<^verbatim>\<open>' '.join(ts)\<close>: the tokens with one blank between neighbours.\<close>

fun join_blank :: "string list \<Rightarrow> string" where
  "join_blank [] = []"
| "join_blank [t] = t"
| "join_blank (t # u # ts) = t @ CHR '' '' # join_blank (u # ts)"


section \<open>The time-series source\<close>

text \<open>
  The result source \<^verbatim>\<open>self.ds\<close> belongs to the host toolbox, so it is a parameter of the
  model: its timestamps, the names of its variables, the read of one variable at one
  time-step number (which may raise), the timestamps of an aggregated variable, the
  number of flowlines and the id mapping of the pumps.
\<close>

record datasource =
  timestamps :: "real list"
  get_available_variables :: "string list"
  get_values_by_timestep_nr :: "string \<Rightarrow> int \<Rightarrow> py_error + sample list"
  get_agg_var_timestamps :: "string \<Rightarrow> real list"
  nFlowLine :: nat
  id_mapping_pumpstation :: "int \<Rightarrow> int option"

text \<open>The read restricted to positions: \<^verbatim>\<open>get_values_by_timestep_nr(v, i, index=idx)\<close>.\<close>

definition get_values_by_timestep_nr_index ::
    "datasource \<Rightarrow> string \<Rightarrow> int \<Rightarrow> int list \<Rightarrow> py_error + sample list" where
  "get_values_by_timestep_nr_index ds v i idx =
     (case get_values_by_timestep_nr ds v i of Inl e \<Rightarrow> Inl e | Inr a \<Rightarrow> np_take a idx)"

text \<open>
  A source that holds each variable as a list of arrays, one per time step, and reads it
  with array indexing; used to build concrete sources.
\<close>

definition series_read :: "(string \<times> sample list list) list \<Rightarrow> string \<Rightarrow> int \<Rightarrow> py_error + sample list" where
  "series_read vars v i = (case map_of vars v of None \<Rightarrow> Inl KeyError | Some steps \<Rightarrow> py_index steps i)"

definition unmasked :: "real list \<Rightarrow> sample list" where
  "unmasked xs = map (\<lambda>x. Sample x False) xs"

subsection \<open>\<^verbatim>\<open>get_agg_cum_if_available\<close>\<close>

definition get_agg_cum_if_available :: "datasource \<Rightarrow> string \<Rightarrow> py_error + (real list \<times> bool)" where
  "get_agg_cum_if_available ds parameter_name =
     (if parameter_name \<in> set (get_available_variables ds) then
        (case get_values_by_timestep_nr ds parameter_name
                (int (length (get_agg_var_timestamps ds parameter_name)) - 1) of
           Inl e \<Rightarrow> Inl e
         | Inr result \<Rightarrow> Inr (map data result, True))
      else Inr (replicate (nFlowLine ds) 0, False))"

section \<open>Provenance: \<^verbatim>\<open>set_stat_source\<close>\<close>

record StatSource =
  ss_table :: string
  ss_field :: string
  from_agg :: bool
  input_param :: string
  ss_timestep :: "int option"

text \<open>
  The table of provenance rows is a list in row order. The first row with the table and
  field is updated in place; without one a new row is added.
\<close>

fun set_stat_source ::
    "StatSource list \<Rightarrow> string \<Rightarrow> string \<Rightarrow> bool \<Rightarrow> string \<Rightarrow> int option \<Rightarrow> StatSource list" where
  "set_stat_source [] t f from_aggregated param ts =
     [\<lparr>ss_table = t, ss_field = f, from_agg = from_aggregated, input_param = param,
       ss_timestep = ts\<rparr>]"
| "set_stat_source (r # rs) t f from_aggregated param ts =
     (if ss_table r = t \<and> ss_field r = f
      then r\<lparr>from_agg := from_aggregated, input_param := param, ss_timestep := ts\<rparr> # rs
      else r # set_stat_source rs t f from_aggregated param ts)"

text \<open>\<^verbatim>\<open>int(self.ds.timestamps[-1] / (len(self.ds.timestamps) - 1))\<close> on a numpy array of
  timestamps: the empty array has no last element; with one timestamp the quotient is
  \<^verbatim>\<open>nan\<close> or infinite and \<^verbatim>\<open>int\<close> raises.\<close>

definition avg_timestep :: "real list \<Rightarrow> py_error + int" where
  "avg_timestep ts =
     (if ts = [] then Inl IndexError
      else if length ts = 1 then Inl (if last ts = 0 then ValueError else OverflowError)
      else Inr (py_int (last ts / (real (length ts) - 1))))"

text \<open>One call of \<^verbatim>\<open>set_stat_source\<close>: table, field, from-aggregate flag, parameter, step.\<close>

type_synonym source_call = "string \<times> string \<times> bool \<times> string \<times> int option"

definition record_sources :: "StatSource list \<Rightarrow> source_call list \<Rightarrow> StatSource list" where
  "record_sources store calls =
     foldl (\<lambda>s (t, f, a, p, ts). set_stat_source s t f a p ts) store calls"



text \<open>The calls at the end of \<^verbatim>\<open>get_pump_attributes_and_statistics\<close>, in order.\<close>

definition pump_source_calls :: "bool \<Rightarrow> int \<Rightarrow> source_call list" where
  "pump_source_calls agg_q_cum avg =
     [(''pumpline_stats'', ''end_discharge'', False, ''q_pump'', Some avg),
      (''pumpline_stats'', ''max_discharge'', False, ''q_pump'', Some avg),
      (''pumpline_stats'', ''perc_end_discharge'', False, ''q_pump'', Some avg)] @
     (if agg_q_cum then
        [(''pumpline_stats'', ''cum_discharge'', True, ''q_pump_cum'', None),
         (''pumpline_stats'', ''duration_pump_on_max'', True, ''q_pump_cum'', None),
         (''pumpline_stats'', ''perc_max_discharge'', True, ''q_pump_cum'', None)]
      else
        [(''pumpline_stats'', ''cum_discharge'', False, ''q_pump'', Some avg),
         (''pumpline_stats'', ''duration_pump_on_max'', False, ''q_pump'', Some avg),
         (''pumpline_stats'', ''perc_max_discharge'', False, ''q_pump'', Some avg)])"



definition pump_stat_sources :: "datasource \<Rightarrow> bool \<Rightarrow> StatSource list \<Rightarrow> py_error + StatSource list" where
  "pump_stat_sources ds agg_q_cum store =
     (case avg_timestep (timestamps ds) of
        Inl e \<Rightarrow> Inl e
      | Inr avg \<Rightarrow> Inr (record_sources store (pump_source_calls agg_q_cum avg)))"

section \<open>Manholes: \<^verbatim>\<open>get_manhole_attributes_and_statistics\<close>\<close>

text \<open>
  The rows the function reads: the nodes of the result store, the manholes of the model
  database ordered by connection node, and the same manholes joined with their pipes
  (which adds the sewerage type and leaves out a manhole without a pipe). Warnings
  written to the log are values of \<open>log_entry\<close>.
\<close>

record Node =
  node_id :: int
  node_spatialite_id :: "int option"

record manhole =
  mh_id :: int
  connection_node_id :: int
  mh_code :: string
  mh_display_name :: string
  mh_sewerage_type :: "int option"
  surface_level :: real
  bottom_level :: real

datatype log_entry = Manhole_not_in_results int | No_result_for_pipe int

text \<open>\<^verbatim>\<open>{node.spatialite_id: node.id for node in nodes}\<close> over the nodes with a
  \<^verbatim>\<open>spatialite_id\<close>.\<close>

definition node_mapping :: "Node list \<Rightarrow> int \<Rightarrow> int option" where
  "node_mapping nodes =
     foldl (\<lambda>m n. case node_spatialite_id n of None \<Rightarrow> m | Some k \<Rightarrow> m(k \<mapsto> node_id n))
       Map.empty nodes"

text \<open>The first loop: a mapped manhole gives its index and surface level, an unmapped
  one a warning and nothing else.\<close>

fun manhole_index :: "(int \<Rightarrow> int option) \<Rightarrow> manhole list \<Rightarrow> log_entry list \<times> int list \<times> real list" where
  "manhole_index nm [] = ([], [], [])"
| "manhole_index nm (m # ms) =
     (case manhole_index nm ms of
        (lg, manhole_idx, manhole_surface_level) \<Rightarrow>
          (case nm (connection_node_id m) of
             Some k \<Rightarrow> (lg, k # manhole_idx, surface_level m # manhole_surface_level)
           | None \<Rightarrow> (Manhole_not_in_results (mh_id m) # lg, manhole_idx, manhole_surface_level)))"

text \<open>\<^verbatim>\<open>h_max\<close> is the scalar \<^verbatim>\<open>-9999.0\<close> before the first aggregated step and an array
  afterwards; only an array can be indexed.\<close>

datatype hmax = Scalar real | Array "real list"

fun np_maximum_h :: "hmax \<Rightarrow> real list \<Rightarrow> hmax" where
  "np_maximum_h (Scalar s) h = Array (map (max s) h)"
| "np_maximum_h (Array a) h = Array (map2 max a h)"

fun hmax_index :: "hmax \<Rightarrow> nat \<Rightarrow> py_error + real" where
  "hmax_index (Scalar s) i = Inl TypeError"
| "hmax_index (Array a) i = py_index a (int i)"

fun agg_h_max_loop :: "datasource \<Rightarrow> int list \<Rightarrow> int \<Rightarrow> real list \<Rightarrow> hmax \<Rightarrow> py_error + hmax" where
  "agg_h_max_loop ds manhole_idx i [] hm = Inr hm"
| "agg_h_max_loop ds manhole_idx i (t # ts) hm =
     (case get_values_by_timestep_nr_index ds ''s1_max'' i manhole_idx of
        Inl e \<Rightarrow> Inl e
      | Inr h \<Rightarrow> agg_h_max_loop ds manhole_idx (i + 1) ts (np_maximum_h hm (map data h)))"

text \<open>
  The loop over the timestamps. The step read is number \<open>i - 1\<close>; the duration of a
  manhole grows by the elapsed time where the level read is at or above the surface.
\<close>

fun manhole_loop ::
    "datasource \<Rightarrow> bool \<Rightarrow> int list \<Rightarrow> real list \<Rightarrow> int \<Rightarrow> real \<Rightarrow> real list \<Rightarrow>
     hmax \<times> real list \<Rightarrow> py_error + (hmax \<times> real list)" where
  "manhole_loop ds agg_h_max manhole_idx manhole_surface_level i prev_timestamp [] acc = Inr acc"
| "manhole_loop ds agg_h_max manhole_idx manhole_surface_level i prev_timestamp (t # ts)
       (hm, t_water_surface) =
     (let timestep = t - prev_timestamp in
      case get_values_by_timestep_nr_index ds ''s1'' (i - 1) manhole_idx of
        Inl e \<Rightarrow> Inl e
      | Inr h \<Rightarrow>
          manhole_loop ds agg_h_max manhole_idx manhole_surface_level (i + 1) t ts
            (if agg_h_max then hm else np_maximum_h hm (map data h),
             map (\<lambda>(tw, s, lvl). if data s \<ge> lvl then tw + timestep else tw)
               (zip t_water_surface (zip h manhole_surface_level))))"

text \<open>\<^verbatim>\<open>int(np.where(manhole_idx == idx)[0][0])\<close>: the first position holding \<open>idx\<close>.\<close>

fun np_where_first :: "int list \<Rightarrow> int \<Rightarrow> nat \<Rightarrow> py_error + nat" where
  "np_where_first [] x n = Inl IndexError"
| "np_where_first (y # ys) x n = (if y = x then Inr n else np_where_first ys x (Suc n))"

record ManholeStats =
  ms_id :: int
  ms_code :: string
  ms_display_name :: string
  ms_sewerage_type :: "int option"
  ms_bottom_level :: real
  ms_surface_level :: real
  duration_water_on_surface :: real
  max_waterlevel :: real
  end_waterlevel :: "real option"
  max_waterdepth_surface :: real
  ms_max_filling :: npfloat
  ms_end_filling :: npfloat

text \<open>The row of a manhole from its index, its duration, its maximum level and the entry
  of the masked array read at the last step; a masked entry is written as null.\<close>

definition manhole_stats_row :: "manhole \<Rightarrow> int \<Rightarrow> real \<Rightarrow> real \<Rightarrow> sample \<Rightarrow> ManholeStats" where
  "manhole_stats_row m idx tws hm he =
     \<lparr>ms_id = idx,
      ms_code = mh_code m,
      ms_display_name = mh_display_name m,
      ms_sewerage_type = mh_sewerage_type m,
      ms_bottom_level = py_round (bottom_level m) 3,
      ms_surface_level = py_round (surface_level m) 3,
      duration_water_on_surface = py_round (tws / 3600) 3,
      max_waterlevel = py_round hm 3,
      end_waterlevel = round_element he 3,
      max_waterdepth_surface = py_round (hm - surface_level m) 3,
      ms_max_filling =
        np_round (np_divide (100 * (hm - bottom_level m)) (surface_level m - bottom_level m)) 1,
      ms_end_filling =
        (if mask he then NonFinite
         else np_round (np_divide (100 * (data he - bottom_level m))
                (surface_level m - bottom_level m)) 1)\<rparr>"

fun manhole_rows ::
    "(int \<Rightarrow> int option) \<Rightarrow> int list \<Rightarrow> hmax \<Rightarrow> real list \<Rightarrow> sample list \<Rightarrow> manhole list \<Rightarrow>
     py_error + ManholeStats list" where
  "manhole_rows nm manhole_idx hm t_water_surface h_end [] = Inr []"
| "manhole_rows nm manhole_idx hm t_water_surface h_end (m # ms) =
     (case nm (connection_node_id m) of
        None \<Rightarrow> manhole_rows nm manhole_idx hm t_water_surface h_end ms
      | Some idx \<Rightarrow>
          (case np_where_first manhole_idx idx 0 of
             Inl e \<Rightarrow> Inl e
           | Inr ri \<Rightarrow>
               (case py_index t_water_surface (int ri) of
                  Inl e \<Rightarrow> Inl e
                | Inr tws \<Rightarrow>
                    (case hmax_index hm ri of
                       Inl e \<Rightarrow> Inl e
                     | Inr hmr \<Rightarrow>
                         (case py_index h_end (int ri) of
                            Inl e \<Rightarrow> Inl e
                          | Inr he \<Rightarrow>
                              (case manhole_rows nm manhole_idx hm t_water_surface h_end ms of
                                 Inl e \<Rightarrow> Inl e
                               | Inr rows \<Rightarrow>
                                   Inr (manhole_stats_row m idx tws hmr he # rows)))))))"

definition agg_h_max_available :: "datasource \<Rightarrow> bool" where
  "agg_h_max_available ds = (''s1_max'' \<in> set (get_available_variables ds))"

definition initial_h_max :: "datasource \<Rightarrow> int list \<Rightarrow> py_error + hmax" where
  "initial_h_max ds manhole_idx =
     (if agg_h_max_available ds
      then agg_h_max_loop ds manhole_idx 0 (get_agg_var_timestamps ds ''s1_max'') (Scalar (- 9999))
      else Inr (Array (replicate (length manhole_idx) (- 9999))))"

text \<open>The function: the log, and the new content of the manhole statistics table or the
  exception that ended the run.\<close>

definition get_manhole_attributes_and_statistics ::
    "datasource \<Rightarrow> Node list \<Rightarrow> manhole list \<Rightarrow> manhole list \<Rightarrow>
     log_entry list \<times> (py_error + ManholeStats list)" where
  "get_manhole_attributes_and_statistics ds nodes manholes manholes_with_pipe =
     (case manhole_index (node_mapping nodes) manholes of
        (lg, manhole_idx, manhole_surface_level) \<Rightarrow>
          (lg,
           case initial_h_max ds manhole_idx of
             Inl e \<Rightarrow> Inl e
           | Inr hm0 \<Rightarrow>
               (case manhole_loop ds (agg_h_max_available ds) manhole_idx manhole_surface_level
                       0 0 (timestamps ds) (hm0, replicate (length manhole_idx) 0) of
                  Inl e \<Rightarrow> Inl e
                | Inr (hm, t_water_surface) \<Rightarrow>
                    (case get_values_by_timestep_nr_index ds ''s1''
                            (int (length (timestamps ds)) - 1) manhole_idx of
                       Inl e \<Rightarrow> Inl e
                     | Inr h_end \<Rightarrow>
                         manhole_rows (node_mapping nodes) manhole_idx hm t_water_surface h_end
                           manholes_with_pipe))))"

section \<open>Flowlines: \<^verbatim>\<open>calc_flowline_statistics\<close>\<close>

text \<open>
  A flowline row of the result store, ordered by id, with the length of its geometry.
  The running arrays of the loop are the fields of \<open>flow_acc\<close>. The running maxima of
  discharge and velocity become masked arrays in the first pass; the other arrays stay
  plain.
\<close>

record Flowline =
  fl_id :: int
  fl_spatialite_id :: "int option"
  fl_type :: string
  start_node_idx :: int
  end_node_idx :: int
  fl_abs_length :: "real option"

record flow_acc =
  qcum :: "real list"
  qcum_pos :: "real list"
  qcum_neg :: "real list"
  qmax :: "real option list"
  vmax :: "real option list"
  dh_max :: "real list"
  hmax_start :: "real list"
  hmax_end :: "real list"

text \<open>\<^verbatim>\<open>np.copyto(dh_max, np.maximum(dh_max, |h_start - h_end|), where=not (mask or mask))\<close>:
  an entry is overwritten only where neither end is masked.\<close>

definition update_dh_max :: "real list \<Rightarrow> sample list \<Rightarrow> sample list \<Rightarrow> py_error + real list" where
  "update_dh_max dh h_start h_end =
     bind_err (np_binary (\<lambda>s e. Sample \<bar>data s - data e\<bar> (mask s \<or> mask e)) h_start h_end)
       (\<lambda>diff. np_inplace (\<lambda>d x. if \<not> mask x then max d (data x) else d) dh diff)"

text \<open>The body of the loop at step \<open>i\<close> with the elapsed time \<open>timestep\<close>, in the order of
  the code.\<close>

definition flowline_step ::
    "datasource \<Rightarrow> bool \<Rightarrow> bool \<Rightarrow> bool \<Rightarrow> int list \<Rightarrow> int list \<Rightarrow> int \<Rightarrow> real \<Rightarrow> flow_acc \<Rightarrow>
     py_error + flow_acc" where
  "flowline_step ds agg_q_cum agg_q_cum_pos agg_q_cum_neg start_idx end_idx i timestep a =
     bind_err (get_values_by_timestep_nr ds ''q'' (i - 1)) (\<lambda>q.
     bind_err (if \<not> agg_q_cum
               then np_inplace (\<lambda>c s. c + ma_times s timestep) (qcum a) q
               else Inr (qcum a)) (\<lambda>qcum'.
     bind_err (if \<not> agg_q_cum_pos
               then np_inplace (\<lambda>c s. c + ma_times (ma_clip_min s) timestep) (qcum_pos a) q
               else Inr (qcum_pos a)) (\<lambda>qcum_pos'.
     bind_err (if \<not> agg_q_cum_neg
               then np_inplace (\<lambda>c s. c - ma_times (ma_clip_max s) timestep) (qcum_neg a) q
               else Inr (qcum_neg a)) (\<lambda>qcum_neg'.
     bind_err (np_binary (\<lambda>m s. ma_maximum m (ma_abs s)) (qmax a) q) (\<lambda>qmax'.
     bind_err (get_values_by_timestep_nr ds ''u1'' (i - 1)) (\<lambda>v.
     bind_err (np_binary (\<lambda>m s. ma_maximum m (ma_abs s)) (vmax a) v) (\<lambda>vmax'.
     bind_err (get_values_by_timestep_nr ds ''s1'' (i - 1)) (\<lambda>h.
     bind_err (np_take_array h start_idx) (\<lambda>h_start.
     bind_err (np_take_array h end_idx) (\<lambda>h_end.
     bind_err (update_dh_max (dh_max a) h_start h_end) (\<lambda>dh_max'.
     bind_err (np_binary (\<lambda>m s. max m (data s)) (hmax_start a) h_start) (\<lambda>hmax_start'.
     bind_err (np_binary (\<lambda>m s. max m (data s)) (hmax_end a) h_end) (\<lambda>hmax_end'.
       Inr \<lparr>qcum = qcum', qcum_pos = qcum_pos', qcum_neg = qcum_neg', qmax = qmax',
            vmax = vmax', dh_max = dh_max', hmax_start = hmax_start',
            hmax_end = hmax_end'\<rparr>)))))))))))))"

fun flowline_loop ::
    "datasource \<Rightarrow> bool \<Rightarrow> bool \<Rightarrow> bool \<Rightarrow> int list \<Rightarrow> int list \<Rightarrow> int \<Rightarrow> real \<Rightarrow> real list \<Rightarrow>
     flow_acc \<Rightarrow> py_error + flow_acc" where
  "flowline_loop ds agg_q_cum agg_q_cum_pos agg_q_cum_neg start_idx end_idx i prev_timestamp [] a =
     Inr a"
| "flowline_loop ds agg_q_cum agg_q_cum_pos agg_q_cum_neg start_idx end_idx i prev_timestamp
       (t # ts) a =
     (case flowline_step ds agg_q_cum agg_q_cum_pos agg_q_cum_neg start_idx end_idx i
             (t - prev_timestamp) a of
        Inl e \<Rightarrow> Inl e
      | Inr a' \<Rightarrow>
          flowline_loop ds agg_q_cum agg_q_cum_pos agg_q_cum_neg start_idx end_idx (i + 1) t ts a')"

record FlowlineStats =
  fs_id :: int
  cum_discharge :: "real option"
  cum_discharge_positive :: "real option"
  cum_discharge_negative :: "real option"
  max_discharge :: "real option"
  end_discharge :: "real option"
  max_velocity :: "real option"
  end_velocity :: "real option"
  max_waterlevel_head :: "real option"
  max_waterlevel_start :: "real option"
  max_waterlevel_end :: "real option"
  end_waterlevel_start :: "real option"
  end_waterlevel_end :: "real option"
  abs_length :: "real option"

text \<open>
  The row of flowline number \<open>i\<close> of the query. Every array is read at \<open>i\<close>, which raises
  when an array is shorter; rounding a missing length raises as well. The columns of the
  table can hold null, so the row holds options; a masked entry is written as null.
\<close>

definition flowline_stats_row ::
    "flow_acc \<Rightarrow> sample list \<Rightarrow> sample list \<Rightarrow> sample list \<Rightarrow> sample list \<Rightarrow> nat \<Rightarrow> Flowline \<Rightarrow>
     py_error + FlowlineStats" where
  "flowline_stats_row a qend vend hend_start hend_end i flowline =
     (if i < length (qcum a) \<and> i < length (qcum_pos a) \<and> i < length (qcum_neg a) \<and>
         i < length (qmax a) \<and> i < length qend \<and> i < length (vmax a) \<and> i < length vend \<and>
         i < length (dh_max a) \<and> i < length (hmax_start a) \<and> i < length (hmax_end a) \<and>
         i < length hend_start \<and> i < length hend_end
      then
        (case fl_abs_length flowline of
           None \<Rightarrow> Inl TypeError
         | Some len \<Rightarrow>
             Inr \<lparr>fs_id = fl_id flowline,
                  cum_discharge = Some (py_round (qcum a ! i) 3),
                  cum_discharge_positive = Some (py_round (qcum_pos a ! i) 3),
                  cum_discharge_negative = Some (py_round (qcum_neg a ! i) 3),
                  max_discharge = map_option (\<lambda>x. py_round x 8) (qmax a ! i),
                  end_discharge = round_element (qend ! i) 8,
                  max_velocity = map_option (\<lambda>x. py_round x 8) (vmax a ! i),
                  end_velocity = round_element (vend ! i) 8,
                  max_waterlevel_head = Some (py_round (dh_max a ! i) 4),
                  max_waterlevel_start = Some (py_round (hmax_start a ! i) 3),
                  max_waterlevel_end = Some (py_round (hmax_end a ! i) 3),
                  end_waterlevel_start = round_element (hend_start ! i) 3,
                  end_waterlevel_end = round_element (hend_end ! i) 3,
                  abs_length = Some (py_round len 3)\<rparr>)
      else Inl IndexError)"

fun flowline_rows ::
    "flow_acc \<Rightarrow> sample list \<Rightarrow> sample list \<Rightarrow> sample list \<Rightarrow> sample list \<Rightarrow> nat \<Rightarrow> Flowline list \<Rightarrow>
     py_error + FlowlineStats list" where
  "flowline_rows a qend vend hend_start hend_end i [] = Inr []"
| "flowline_rows a qend vend hend_start hend_end i (f # fs) =
     (case flowline_stats_row a qend vend hend_start hend_end i f of
        Inl e \<Rightarrow> Inl e
      | Inr r \<Rightarrow>
          (case flowline_rows a qend vend hend_start hend_end (Suc i) fs of
             Inl e \<Rightarrow> Inl e
           | Inr rs \<Rightarrow> Inr (r # rs)))"

text \<open>The arrays before the first step.\<close>

definition initial_flow_acc :: "datasource \<Rightarrow> real list \<Rightarrow> real list \<Rightarrow> real list \<Rightarrow> flow_acc" where
  "initial_flow_acc ds qc qp qn =
     \<lparr>qcum = qc, qcum_pos = qp, qcum_neg = qn,
      qmax = replicate (nFlowLine ds) (Some 0),
      vmax = replicate (nFlowLine ds) (Some 0),
      dh_max = replicate (nFlowLine ds) 0,
      hmax_start = replicate (nFlowLine ds) (- 9999),
      hmax_end = replicate (nFlowLine ds) (- 9999)\<rparr>"

text \<open>The statistics part of the function: the new content of the flowline table.\<close>

definition calc_flowline_statistics :: "datasource \<Rightarrow> Flowline list \<Rightarrow> py_error + FlowlineStats list" where
  "calc_flowline_statistics ds flowlines =
     (let start_idx = map start_node_idx flowlines;
          end_idx = map end_node_idx flowlines;
          n = int (length (timestamps ds))
      in
     (case get_agg_cum_if_available ds ''q_cum'' of
        Inl e \<Rightarrow> Inl e
      | Inr (qc, agg_q_cum) \<Rightarrow>
     (case get_agg_cum_if_available ds ''q_cum_positive'' of
        Inl e \<Rightarrow> Inl e
      | Inr (qp, agg_q_cum_pos) \<Rightarrow>
     (case get_agg_cum_if_available ds ''q_cum_negative'' of
        Inl e \<Rightarrow> Inl e
      | Inr (qn, agg_q_cum_neg) \<Rightarrow>
     (case flowline_loop ds agg_q_cum agg_q_cum_pos agg_q_cum_neg start_idx end_idx 0 0
             (timestamps ds) (initial_flow_acc ds qc qp qn) of
        Inl e \<Rightarrow> Inl e
      | Inr a \<Rightarrow>
     (case get_values_by_timestep_nr ds ''q'' (n - 1) of
        Inl e \<Rightarrow> Inl e
      | Inr qend \<Rightarrow>
     (case get_values_by_timestep_nr ds ''u1'' (n - 1) of
        Inl e \<Rightarrow> Inl e
      | Inr vend \<Rightarrow>
     (case get_values_by_timestep_nr ds ''s1'' (n - 1) of
        Inl e \<Rightarrow> Inl e
      | Inr h_last_ts \<Rightarrow>
     (case np_take_array h_last_ts start_idx of
        Inl e \<Rightarrow> Inl e
      | Inr hend_start \<Rightarrow>
     (case np_take_array h_last_ts end_idx of
        Inl e \<Rightarrow> Inl e
      | Inr hend_end \<Rightarrow>
          flowline_rows a qend vend hend_start hend_end 0 flowlines))))))))))"

section \<open>Pipes and weirs: \<^verbatim>\<open>calc_pipe_and_weir_statistics\<close>\<close>

text \<open>A pipe of the model database joined with its cross-section definition, and a weir.\<close>

record pipe =
  pipe_id :: int
  pipe_code :: string
  pipe_display_name :: string
  pipe_sewerage_type :: "int option"
  invert_level_start_point :: "real option"
  invert_level_end_point :: "real option"
  pipe_shape :: "int option"
  pipe_height :: "string option"
  pipe_width :: "string option"

record weir =
  weir_id :: int
  weir_code :: string
  weir_display_name :: string
  weir_crest_level :: "real option"

text \<open>
  A row of the pipe statistics table. The profile height is the token the code picks (a
  string) when the row is built, and a number when the row is read back from its column.
\<close>

record 'h PipeStats =
  ps_id :: int
  ps_code :: string
  ps_display_name :: string
  ps_sewerage_type :: "int option"
  invert_level_start :: "real option"
  invert_level_end :: "real option"
  profile_height :: "'h option"
  max_hydro_gradient :: "real option"
  ps_max_filling :: "real option"
  ps_end_filling :: "real option"

record WeirStats =
  ws_id :: int
  ws_code :: string
  ws_display_name :: string
  crest_level :: "real option"
  perc_volume :: "real option"
  perc_volume_positive :: "real option"
  perc_volume_negative :: "real option"
  max_overfall_height :: "real option"

text \<open>\<^verbatim>\<open>{f.spatialite_id: f.id for f in flowlines of the type}\<close>: a later row wins.\<close>

definition flowline_mapping :: "string \<Rightarrow> Flowline list \<Rightarrow> int option \<Rightarrow> int option" where
  "flowline_mapping ty flowlines =
     foldl (\<lambda>m f. m(fl_spatialite_id f \<mapsto> fl_id f)) Map.empty
       (filter (\<lambda>f. fl_type f = ty) flowlines)"

text \<open>The \<^verbatim>\<open>if / elif / else\<close> that picks the profile height of a pipe.\<close>

definition pipe_profile_height ::
    "int option \<Rightarrow> string option \<Rightarrow> string option \<Rightarrow> py_error + string option" where
  "pipe_profile_height shp wd ht =
     (if (shp = Some 1 \<or> shp = Some 2) \<and> wd \<noteq> None then
        (case wd of
           None \<Rightarrow> Inr None
         | Some w \<Rightarrow> (case py_max (py_split w) of Inl e \<Rightarrow> Inl e | Inr t \<Rightarrow> Inr (Some t)))
      else if (shp = Some 5 \<or> shp = Some 6) \<and> ht \<noteq> None then
        (case ht of
           None \<Rightarrow> Inr None
         | Some h \<Rightarrow> (case py_max (py_split h) of Inl e \<Rightarrow> Inl e | Inr t \<Rightarrow> Inr (Some t)))
      else Inr None)"

text \<open>
  The loop over the pipes. A pipe without a flowline is logged, and the lookup that
  follows raises; the log written so far is kept beside the result.
\<close>

fun pipe_stats_loop ::
    "(int option \<Rightarrow> int option) \<Rightarrow> pipe list \<Rightarrow> log_entry list \<Rightarrow> string PipeStats list \<Rightarrow>
     log_entry list \<times> (py_error + string PipeStats list)" where
  "pipe_stats_loop pipes_mapping [] lg pipe_stats = (lg, Inr pipe_stats)"
| "pipe_stats_loop pipes_mapping (p # ps) lg pipe_stats =
     (let lg' = (if pipes_mapping (Some (pipe_id p)) = None
                 then lg @ [No_result_for_pipe (pipe_id p)] else lg)
      in case pipes_mapping (Some (pipe_id p)) of
           None \<Rightarrow> (lg', Inl KeyError)
         | Some idx \<Rightarrow>
             (case pipe_profile_height (pipe_shape p) (pipe_width p) (pipe_height p) of
                Inl e \<Rightarrow> (lg', Inl e)
              | Inr height \<Rightarrow>
                  pipe_stats_loop pipes_mapping ps lg'
                    (pipe_stats @
                     [\<lparr>ps_id = idx,
                       ps_code = pipe_code p,
                       ps_display_name = pipe_display_name p,
                       ps_sewerage_type = pipe_sewerage_type p,
                       invert_level_start = invert_level_start_point p,
                       invert_level_end = invert_level_end_point p,
                       profile_height = height,
                       max_hydro_gradient = None,
                       ps_max_filling = None,
                       ps_end_filling = None\<rparr>])))"

fun weir_stats_loop ::
    "(int option \<Rightarrow> int option) \<Rightarrow> weir list \<Rightarrow> WeirStats list \<Rightarrow> py_error + WeirStats list" where
  "weir_stats_loop weirs_mapping [] weir_stats = Inr weir_stats"
| "weir_stats_loop weirs_mapping (w # ws) weir_stats =
     (case weirs_mapping (Some (weir_id w)) of
        None \<Rightarrow> Inl KeyError
      | Some idx \<Rightarrow>
          weir_stats_loop weirs_mapping ws
            (weir_stats @
             [\<lparr>ws_id = idx,
               ws_code = weir_code w,
               ws_display_name = weir_display_name w,
               crest_level = weir_crest_level w,
               perc_volume = None,
               perc_volume_positive = None,
               perc_volume_negative = None,
               max_overfall_height = None\<rparr>]))"

text \<open>The first half of the function: the pipe rows, then the weir rows.\<close>

definition pipe_and_weir_rows ::
    "Flowline list \<Rightarrow> pipe list \<Rightarrow> weir list \<Rightarrow>
     log_entry list \<times> (py_error + string PipeStats list \<times> WeirStats list)" where
  "pipe_and_weir_rows flowlines pipes weirs =
     (case pipe_stats_loop (flowline_mapping ''v2_pipe'' flowlines) pipes [] [] of
        (lg, Inl e) \<Rightarrow> (lg, Inl e)
      | (lg, Inr pipe_stats) \<Rightarrow>
          (case weir_stats_loop (flowline_mapping ''v2_weir'' flowlines) weirs [] of
             Inl e \<Rightarrow> (lg, Inl e)
           | Inr weir_stats \<Rightarrow> (lg, Inr (pipe_stats, weir_stats))))"

subsection \<open>Derived fields\<close>

definition get_filling ::
    "real option \<Rightarrow> real option \<Rightarrow> real option \<Rightarrow> real option \<Rightarrow> real option \<Rightarrow>
     py_error + real option" where
  "get_filling start_level end_level start_invert_level end_invert_level profile_hgt =
     (case (start_level, end_level, start_invert_level, end_invert_level, profile_hgt) of
        (Some sl, Some el, Some si, Some ei, Some ph) \<Rightarrow>
          (case py_truediv (sl - si) ph of
             Inl e \<Rightarrow> Inl e
           | Inr fs \<Rightarrow>
               (let fill_start = max 0 (min 1 fs) in
                case py_truediv (el - ei) ph of
                  Inl e \<Rightarrow> Inl e
                | Inr fe \<Rightarrow>
                    (let fill_end = max 0 (min 1 fe) in
                     Inr (Some (py_round (100 * (fill_start + fill_end) / 2) 3)))))
      | _ \<Rightarrow> Inr None)"

text \<open>The guarded assignment of the hydraulic gradient: the old value stays where the
  guard fails.\<close>

definition hydro_gradient :: "real option \<Rightarrow> real option \<Rightarrow> real option \<Rightarrow> real option" where
  "hydro_gradient len head old =
     (case len of
        None \<Rightarrow> old
      | Some l \<Rightarrow>
          if l > 0 then
            (case head of None \<Rightarrow> old | Some dh \<Rightarrow> Some (py_round (100 * (dh / l)) 3))
          else old)"

definition pipe_update :: "FlowlineStats \<Rightarrow> real PipeStats \<Rightarrow> py_error + real PipeStats" where
  "pipe_update st p =
     (case get_filling (max_waterlevel_start st) (max_waterlevel_end st)
             (invert_level_start p) (invert_level_end p) (profile_height p) of
        Inl e \<Rightarrow> Inl e
      | Inr mf \<Rightarrow>
          (case get_filling (end_waterlevel_start st) (end_waterlevel_end st)
                  (invert_level_start p) (invert_level_end p) (profile_height p) of
             Inl e \<Rightarrow> Inl e
           | Inr ef \<Rightarrow>
               Inr (p\<lparr>max_hydro_gradient :=
                        hydro_gradient (abs_length st) (max_waterlevel_head st) (max_hydro_gradient p),
                      ps_max_filling := mf,
                      ps_end_filling := ef\<rparr>)))"

text \<open>The loop over the pipe rows joined by id with a flowline and its statistics; a row
  without both is not in the join and stays as it is.\<close>

fun update_pipes ::
    "Flowline list \<Rightarrow> FlowlineStats list \<Rightarrow> real PipeStats list \<Rightarrow> py_error + real PipeStats list" where
  "update_pipes fls sts [] = Inr []"
| "update_pipes fls sts (p # ps) =
     (case (find (\<lambda>f. fl_id f = ps_id p) fls, find (\<lambda>s. fs_id s = ps_id p) sts) of
        (Some f, Some st) \<Rightarrow>
          (case pipe_update st p of
             Inl e \<Rightarrow> Inl e
           | Inr p' \<Rightarrow>
               (case update_pipes fls sts ps of Inl e \<Rightarrow> Inl e | Inr ps' \<Rightarrow> Inr (p' # ps')))
      | _ \<Rightarrow> (case update_pipes fls sts ps of Inl e \<Rightarrow> Inl e | Inr ps' \<Rightarrow> Inr (p # ps')))"

text \<open>\<^verbatim>\<open>func.max\<close> of a column: the greatest value that is not null, null without one.\<close>

definition sql_max :: "real option list \<Rightarrow> real option" where
  "sql_max xs =
     (case List.map_filter (\<lambda>x. x) xs of [] \<Rightarrow> None | y # ys \<Rightarrow> Some (foldl max y ys))"

definition weir_flowline_stats :: "FlowlineStats list \<Rightarrow> WeirStats list \<Rightarrow> FlowlineStats list" where
  "weir_flowline_stats sts weirs = filter (\<lambda>s. fs_id s \<in> set (map ws_id weirs)) sts"

text \<open>\<^verbatim>\<open>round(100 * x / m, 2)\<close> on two columns read back: a null operand and a zero divisor
  raise.\<close>

definition perc_of_max :: "real option \<Rightarrow> real option \<Rightarrow> py_error + real" where
  "perc_of_max x m =
     (case x of
        None \<Rightarrow> Inl TypeError
      | Some c \<Rightarrow>
          (case m of
             None \<Rightarrow> Inl TypeError
           | Some mx \<Rightarrow>
               (case py_truediv (100 * c) mx of Inl e \<Rightarrow> Inl e | Inr r \<Rightarrow> Inr (py_round r 2))))"

text \<open>\<^verbatim>\<open>max(a, b)\<close> of Python 2 on two columns: null is below every number.\<close>

fun py2_max :: "real option \<Rightarrow> real option \<Rightarrow> real option" where
  "py2_max None b = b"
| "py2_max (Some a) None = Some a"
| "py2_max (Some a) (Some b) = (if b > a then Some b else Some a)"

definition overfall_height :: "real option \<Rightarrow> real option \<Rightarrow> real option \<Rightarrow> py_error + real" where
  "overfall_height hs he crest =
     (case py2_max hs he of
        None \<Rightarrow> Inl TypeError
      | Some m \<Rightarrow> (case crest of None \<Rightarrow> Inl TypeError | Some c \<Rightarrow> Inr (py_round (m - c) 3)))"

definition weir_update ::
    "real option \<Rightarrow> real option \<Rightarrow> real option \<Rightarrow> FlowlineStats \<Rightarrow> WeirStats \<Rightarrow> py_error + WeirStats" where
  "weir_update max_cum_discharge max_cum_discharge_pos max_cum_discharge_neg st w =
     (case perc_of_max (cum_discharge st) max_cum_discharge of
        Inl e \<Rightarrow> Inl e
      | Inr pv \<Rightarrow>
     (case perc_of_max (cum_discharge_positive st) max_cum_discharge_pos of
        Inl e \<Rightarrow> Inl e
      | Inr pp \<Rightarrow>
     (case perc_of_max (cum_discharge_negative st) max_cum_discharge_neg of
        Inl e \<Rightarrow> Inl e
      | Inr pn \<Rightarrow>
     (case overfall_height (max_waterlevel_start st) (max_waterlevel_end st) (crest_level w) of
        Inl e \<Rightarrow> Inl e
      | Inr oh \<Rightarrow>
          Inr (w\<lparr>perc_volume := Some pv,
                 perc_volume_positive := Some pp,
                 perc_volume_negative := Some pn,
                 max_overfall_height := Some oh\<rparr>)))))"

fun update_weirs_loop ::
    "real option \<Rightarrow> real option \<Rightarrow> real option \<Rightarrow> Flowline list \<Rightarrow> FlowlineStats list \<Rightarrow>
     WeirStats list \<Rightarrow> py_error + WeirStats list" where
  "update_weirs_loop m mp mn fls sts [] = Inr []"
| "update_weirs_loop m mp mn fls sts (w # ws) =
     (case (find (\<lambda>f. fl_id f = ws_id w) fls, find (\<lambda>s. fs_id s = ws_id w) sts) of
        (Some f, Some st) \<Rightarrow>
          (case weir_update m mp mn st w of
             Inl e \<Rightarrow> Inl e
           | Inr w' \<Rightarrow>
               (case update_weirs_loop m mp mn fls sts ws of
                  Inl e \<Rightarrow> Inl e
                | Inr ws' \<Rightarrow> Inr (w' # ws')))
      | _ \<Rightarrow>
          (case update_weirs_loop m mp mn fls sts ws of
             Inl e \<Rightarrow> Inl e
           | Inr ws' \<Rightarrow> Inr (w # ws')))"

text \<open>The network-wide maxima over the weirs, then the update of every weir row.\<close>

definition update_weirs ::
    "Flowline list \<Rightarrow> FlowlineStats list \<Rightarrow> WeirStats list \<Rightarrow> py_error + WeirStats list" where
  "update_weirs fls sts weirs =
     (let wst = weir_flowline_stats sts weirs;
          max_cum_discharge = sql_max (map (\<lambda>s. map_option abs (cum_discharge s)) wst);
          max_cum_discharge_pos = sql_max (map cum_discharge_positive wst);
          max_cum_discharge_neg = sql_max (map cum_discharge_negative wst)
      in update_weirs_loop max_cum_discharge max_cum_discharge_pos max_cum_discharge_neg
           fls sts weirs)"

section \<open>Pumps: \<^verbatim>\<open>get_pump_attributes_and_statistics\<close>\<close>

record pump =
  pump_id :: int
  pump_code :: string
  pump_display_name :: string
  pump_capacity :: real

record PumplineStats =
  pl_id :: int
  pl_spatialite_id :: int
  pl_code :: string
  pl_display_name :: string
  pl_capacity :: real
  pl_cum_discharge :: real
  pl_end_discharge :: "real option"
  pl_max_discharge :: "real option"
  duration_pump_on_max :: npfloat
  perc_max_discharge :: npfloat
  perc_end_discharge :: npfloat

text \<open>
  The loop over the timestamps. Without the aggregate the cumulative array is updated by
  \<^verbatim>\<open>q_cum += q_cum * timestep\<close>: the array read at the step, \<open>q\<close>, enters the maximum only.
\<close>

fun pump_loop ::
    "datasource \<Rightarrow> bool \<Rightarrow> int \<Rightarrow> real \<Rightarrow> real list \<Rightarrow> real list \<times> real option list \<Rightarrow>
     py_error + (real list \<times> real option list)" where
  "pump_loop ds agg_q_cum i prev_timestamp [] acc = Inr acc"
| "pump_loop ds agg_q_cum i prev_timestamp (t # ts) (q_cum, q_max) =
     (let timestep = t - prev_timestamp in
      case get_values_by_timestep_nr ds ''q_pump'' (i - 1) of
        Inl e \<Rightarrow> Inl e
      | Inr q \<Rightarrow>
          (case np_binary ma_maximum q_max q of
             Inl e \<Rightarrow> Inl e
           | Inr q_max' \<Rightarrow>
               pump_loop ds agg_q_cum (i + 1) t ts
                 (if \<not> agg_q_cum then map (\<lambda>c. c + c * timestep) q_cum else q_cum, q_max')))"

text \<open>The row of pump number \<open>i\<close>; a masked maximum or end value is written as \<^verbatim>\<open>nan\<close>.\<close>

definition pump_stats_row ::
    "datasource \<Rightarrow> real list \<Rightarrow> real option list \<Rightarrow> sample list \<Rightarrow> nat \<Rightarrow> pump \<Rightarrow>
     py_error + PumplineStats" where
  "pump_stats_row ds q_cum q_max q_end i p =
     (case id_mapping_pumpstation ds (pump_id p) of
        None \<Rightarrow> Inl KeyError
      | Some k \<Rightarrow>
          if i < length q_cum \<and> i < length q_end \<and> i < length q_max then
            Inr \<lparr>pl_id = k - 1,
                 pl_spatialite_id = pump_id p,
                 pl_code = pump_code p,
                 pl_display_name = pump_display_name p,
                 pl_capacity = pump_capacity p / 1000,
                 pl_cum_discharge = py_round (q_cum ! i) 3,
                 pl_end_discharge = round_element (q_end ! i) 8,
                 pl_max_discharge = map_option (\<lambda>x. py_round x 8) (q_max ! i),
                 duration_pump_on_max =
                   np_round (np_divide_by (np_divide (q_cum ! i) (pump_capacity p / 1000)) 3600) 3,
                 perc_max_discharge =
                   (case q_max ! i of
                      None \<Rightarrow> NonFinite
                    | Some x \<Rightarrow> np_round (np_divide (100 * x) (pump_capacity p / 1000)) 2),
                 perc_end_discharge =
                   (if mask (q_end ! i) then NonFinite
                    else np_round (np_divide (100 * data (q_end ! i))
                           (pump_capacity p / 1000)) 2)\<rparr>
          else Inl IndexError)"

fun pump_rows ::
    "datasource \<Rightarrow> real list \<Rightarrow> real option list \<Rightarrow> sample list \<Rightarrow> nat \<Rightarrow> pump list \<Rightarrow>
     py_error + PumplineStats list" where
  "pump_rows ds q_cum q_max q_end i [] = Inr []"
| "pump_rows ds q_cum q_max q_end i (p # ps) =
     (case pump_stats_row ds q_cum q_max q_end i p of
        Inl e \<Rightarrow> Inl e
      | Inr r \<Rightarrow>
          (case pump_rows ds q_cum q_max q_end (Suc i) ps of
             Inl e \<Rightarrow> Inl e
           | Inr rs \<Rightarrow> Inr (r # rs)))"

definition get_pump_attributes_and_statistics :: "datasource \<Rightarrow> pump list \<Rightarrow> py_error + PumplineStats list" where
  "get_pump_attributes_and_statistics ds pumps =
     (case get_agg_cum_if_available ds ''q_pump_cum'' of
        Inl e \<Rightarrow> Inl e
      | Inr (q_cum0, agg_q_cum) \<Rightarrow>
          (case pump_loop ds agg_q_cum 0 0 (timestamps ds)
                  (q_cum0, replicate (length pumps) (Some 0)) of
             Inl e \<Rightarrow> Inl e
           | Inr (q_cum, q_max) \<Rightarrow>
               (case get_values_by_timestep_nr ds ''q_pump'' (int (length (timestamps ds)) - 1) of
                  Inl e \<Rightarrow> Inl e
                | Inr q_end \<Rightarrow> pump_rows ds q_cum q_max q_end 0 pumps)))"

text \<open>The left-step accumulation of one series: every sample times the time elapsed
  since the timestamp before it, the one before the first being 0.\<close>

fun left_step_sum :: "real \<Rightarrow> real list \<Rightarrow> real list \<Rightarrow> real" where
  "left_step_sum prev (t # ts) (x # xs) = x * (t - prev) + left_step_sum t ts xs"
| "left_step_sum prev ts xs = 0"

section \<open>Reading the provenance table\<close>




section \<open>Reading the head differences of a flowline\<close>

text \<open>
  What pass \<open>i\<close> of the flowline loop reads for a flowline from node \<open>s\<close> to node \<open>e\<close>:
  the two water-level samples of step number \<open>i - 1\<close>. \<open>head_differences\<close> lists, for
  \<open>n\<close> passes from pass \<open>i\<close> on, the absolute head difference of every pass in which
  neither sample is masked; a pass with a masked sample adds nothing to the list.
\<close>

definition endpoint_samples :: "datasource \<Rightarrow> int \<Rightarrow> int \<Rightarrow> int \<Rightarrow> (sample \<times> sample) option" where
  "endpoint_samples ds s e i =
     (case get_values_by_timestep_nr ds ''s1'' (i - 1) of
        Inl err \<Rightarrow> None
      | Inr h \<Rightarrow>
          (case py_index h s of
             Inl err \<Rightarrow> None
           | Inr x \<Rightarrow> (case py_index h e of Inl err \<Rightarrow> None | Inr y \<Rightarrow> Some (x, y))))"

fun head_differences :: "datasource \<Rightarrow> int \<Rightarrow> int \<Rightarrow> int \<Rightarrow> nat \<Rightarrow> real list" where
  "head_differences ds s e i 0 = []"
| "head_differences ds s e i (Suc n) =
     (case endpoint_samples ds s e i of
        None \<Rightarrow> head_differences ds s e (i + 1) n
      | Some (x, y) \<Rightarrow>
          if mask x \<or> mask y then head_differences ds s e (i + 1) n
          else \<bar>data x - data y\<bar> # head_differences ds s e (i + 1) n)"

section \<open>Provenance and the source\<close>


definition agg_cum_available :: "datasource \<Rightarrow> string \<Rightarrow> bool" where
  "agg_cum_available ds parameter_name = (parameter_name \<in> set (get_available_variables ds))"


definition pump_provenance :: "datasource \<Rightarrow> StatSource list \<Rightarrow> py_error + StatSource list" where
  "pump_provenance ds store = pump_stat_sources ds (agg_cum_available ds ''q_pump_cum'') store"





section \<open>Concrete inputs\<close>

text \<open>A run of three steps with one pump that delivers 2 at every step; the source has
  no aggregated variable.\<close>

definition pump_example_ds :: datasource where
  "pump_example_ds =
     \<lparr>timestamps = [0, 10, 20],
      get_available_variables = [''q_pump'', ''q'', ''u1'', ''s1''],
      get_values_by_timestep_nr =
        series_read [(''q_pump'', [unmasked [2], unmasked [2], unmasked [2]])],
      get_agg_var_timestamps = (\<lambda>v. []),
      nFlowLine = 1,
      id_mapping_pumpstation = [7 \<mapsto> 1]\<rparr>"

definition pump_example :: pump where
  "pump_example =
     \<lparr>pump_id = 7, pump_code = ''P7'', pump_display_name = ''pump 7'', pump_capacity = 1000\<rparr>"

text \<open>A pipe, a weir and a manhole of the model database that no row of the result store
  refers to.\<close>

definition unmapped_pipe :: pipe where
  "unmapped_pipe =
     \<lparr>pipe_id = 12, pipe_code = ''R12'', pipe_display_name = ''pipe 12'',
      pipe_sewerage_type = Some 0, invert_level_start_point = Some 1,
      invert_level_end_point = Some 1, pipe_shape = Some 2,
      pipe_height = None, pipe_width = Some ''0.3''\<rparr>"

definition unmapped_weir :: weir where
  "unmapped_weir =
     \<lparr>weir_id = 5, weir_code = ''W5'', weir_display_name = ''weir 5'', weir_crest_level = Some 2\<rparr>"

definition unmapped_manhole :: manhole where
  "unmapped_manhole =
     \<lparr>mh_id = 3, connection_node_id = 30, mh_code = ''M3'', mh_display_name = ''manhole 3'',
      mh_sewerage_type = None, surface_level = 1, bottom_level = 0\<rparr>"

text \<open>The run of three steps at 0, 10 and 20 seconds with a single node, whose water
  levels are 0.5, 1.5 and 0.8, and one manhole on it with surface level 1.\<close>

definition scenario1_ds :: datasource where
  "scenario1_ds =
     \<lparr>timestamps = [0, 10, 20],
      get_available_variables = [''s1'', ''q'', ''u1''],
      get_values_by_timestep_nr =
        series_read [(''s1'', [unmasked [1 / 2], unmasked [3 / 2], unmasked [4 / 5]])],
      get_agg_var_timestamps = (\<lambda>v. []),
      nFlowLine = 0,
      id_mapping_pumpstation = Map.empty\<rparr>"

definition scenario1_manhole :: manhole where
  "scenario1_manhole =
     \<lparr>mh_id = 1, connection_node_id = 10, mh_code = ''M1'', mh_display_name = ''manhole 1'',
      mh_sewerage_type = Some 0, surface_level = 1, bottom_level = 0\<rparr>"

definition scenario1_nodes :: "Node list" where
  "scenario1_nodes = [\<lparr>node_id = 0, node_spatialite_id = Some 10\<rparr>]"


text \<open>A weir that carried no water during the run: its flowline, the statistics row of
  the flowline and the weir row before the derived fields are filled in.\<close>

definition dry_weir_flowline :: Flowline where
  "dry_weir_flowline =
     \<lparr>fl_id = 4, fl_spatialite_id = Some 5, fl_type = ''v2_weir'', start_node_idx = 0,
      end_node_idx = 1, fl_abs_length = Some 2\<rparr>"

definition dry_weir_flowline_stats :: FlowlineStats where
  "dry_weir_flowline_stats =
     \<lparr>fs_id = 4, cum_discharge = Some 0, cum_discharge_positive = Some 0,
      cum_discharge_negative = Some 0, max_discharge = Some 0, end_discharge = Some 0,
      max_velocity = Some 0, end_velocity = Some 0, max_waterlevel_head = Some 0,
      max_waterlevel_start = Some (3 / 2), max_waterlevel_end = Some (3 / 2),
      end_waterlevel_start = Some (3 / 2), end_waterlevel_end = Some (3 / 2),
      abs_length = Some 2\<rparr>"

definition dry_weir_stats :: WeirStats where
  "dry_weir_stats =
     \<lparr>ws_id = 4, ws_code = ''W5'', ws_display_name = ''weir 5'', crest_level = Some 2,
      perc_volume = None, perc_volume_positive = None, perc_volume_negative = None,
      max_overfall_height = None\<rparr>"

text \<open>
  A run of four steps with two nodes and one flowline between them; the start node is
  masked at step number 1. The second source starts at a negative timestamp.
\<close>

definition flow_example_ds :: datasource where
  "flow_example_ds =
     \<lparr>timestamps = [0, 10, 20, 30],
      get_available_variables = [''q'', ''u1'', ''s1''],
      get_values_by_timestep_nr =
        series_read
          [(''q'', [unmasked [3], unmasked [- 2], unmasked [1], unmasked [5]]),
           (''u1'', [unmasked [1], unmasked [- 1], unmasked [1], unmasked [1]]),
           (''s1'', [unmasked [1, 1 / 2], [Sample 9 True, Sample (1 / 2) False],
                     unmasked [6 / 5, 1 / 2], unmasked [3 / 5, 1 / 2]])],
      get_agg_var_timestamps = (\<lambda>v. []),
      nFlowLine = 1,
      id_mapping_pumpstation = Map.empty\<rparr>"

text \<open>The same run with the discharge of the second step masked.\<close>

definition masked_flow_ds :: datasource where
  "masked_flow_ds =
     flow_example_ds\<lparr>get_values_by_timestep_nr :=
       series_read
         [(''q'', [unmasked [3], [Sample (- 2) True], unmasked [1], unmasked [5]]),
          (''u1'', [unmasked [1], unmasked [- 1], unmasked [1], unmasked [1]]),
          (''s1'', [unmasked [1, 1 / 2], [Sample 9 True, Sample (1 / 2) False],
                    unmasked [6 / 5, 1 / 2], unmasked [3 / 5, 1 / 2]])]\<rparr>"

definition flow_example_line :: Flowline where
  "flow_example_line =
     \<lparr>fl_id = 0, fl_spatialite_id = Some 12, fl_type = ''v2_pipe'', start_node_idx = 0,
      end_node_idx = 1, fl_abs_length = Some 2\<rparr>"

definition negative_start_ds :: datasource where
  "negative_start_ds =
     \<lparr>timestamps = [- 10, 0],
      get_available_variables = [''q'', ''u1'', ''s1''],
      get_values_by_timestep_nr =
        series_read
          [(''q'', [unmasked [0], unmasked [- 1]]),
           (''u1'', [unmasked [0], unmasked [- 1]]),
           (''s1'', [unmasked [1, 1], unmasked [1, 1]])],
      get_agg_var_timestamps = (\<lambda>v. []),
      nFlowLine = 1,
      id_mapping_pumpstation = Map.empty\<rparr>"

text \<open>Three pipes with their flowlines: a shape with a width, a shape with a height and a
  shape with neither.\<close>

definition pipe_example_flowlines :: "Flowline list" where
  "pipe_example_flowlines =
     [\<lparr>fl_id = 0, fl_spatialite_id = Some 21, fl_type = ''v2_pipe'', start_node_idx = 0,
        end_node_idx = 1, fl_abs_length = Some 2\<rparr>,
      \<lparr>fl_id = 1, fl_spatialite_id = Some 22, fl_type = ''v2_pipe'', start_node_idx = 1,
        end_node_idx = 2, fl_abs_length = Some 3\<rparr>,
      \<lparr>fl_id = 2, fl_spatialite_id = Some 23, fl_type = ''v2_pipe'', start_node_idx = 2,
        end_node_idx = 3, fl_abs_length = Some 4\<rparr>]"

definition pipe_examples :: "pipe list" where
  "pipe_examples =
     [\<lparr>pipe_id = 21, pipe_code = ''R21'', pipe_display_name = ''pipe 21'',
        pipe_sewerage_type = Some 0, invert_level_start_point = Some 1,
        invert_level_end_point = Some 1, pipe_shape = Some 2,
        pipe_height = None, pipe_width = Some ''9 10''\<rparr>,
      \<lparr>pipe_id = 22, pipe_code = ''R22'', pipe_display_name = ''pipe 22'',
        pipe_sewerage_type = Some 0, invert_level_start_point = Some 1,
        invert_level_end_point = Some 1, pipe_shape = Some 5,
        pipe_height = Some ''0.5 1.25'', pipe_width = Some ''0.4 0.8''\<rparr>,
      \<lparr>pipe_id = 23, pipe_code = ''R23'', pipe_display_name = ''pipe 23'',
        pipe_sewerage_type = Some 1, invert_level_start_point = Some 1,
        invert_level_end_point = Some 1, pipe_shape = Some 3,
        pipe_height = Some ''0.5'', pipe_width = Some ''0.4''\<rparr>]"

text \<open>A manhole whose bottom level lies above its surface level.\<close>

definition inverted_manhole :: manhole where
  "inverted_manhole =
     \<lparr>mh_id = 2, connection_node_id = 20, mh_code = ''M2'', mh_display_name = ''manhole 2'',
      mh_sewerage_type = Some 0, surface_level = 1, bottom_level = 2\<rparr>"

section \<open>Properties\<close>

subsection \<open>Pumps: the cumulative discharge\<close>

lemma pump_loop_zero:
  "pump_loop ds False i prev ts (qc, qm) = Inr (qc', qm') \<Longrightarrow> \<forall>c \<in> set qc. c = 0 \<Longrightarrow> qc' = qc"
proof (induction ts arbitrary: i prev qc qm)
  case Nil
  then show ?case by simp
next
  case (Cons t ts)
  have eq: "map (\<lambda>c. c + c * (t - prev)) qc = qc"
    using Cons.prems(2) by (simp add: map_idI)
  from Cons.prems(1) obtain qm2 where
    "pump_loop ds False (i + 1) t ts (qc, qm2) = Inr (qc', qm')"
    by (auto simp: eq Let_def split: sum.splits)
  from Cons.IH[OF this Cons.prems(2)] show ?case .
qed

text \<open>
  C1. Without the aggregate \<^verbatim>\<open>q_pump_cum\<close> the cumulative discharge of a pump should be
  the left-step accumulation of its discharge series, rounded when written. The loop
  multiplies the running array by the step instead of the array read, so the running
  array never leaves zero (\<open>pump_loop_zero\<close>). On the run of three steps with a constant
  discharge of 2 the row written holds 0, while the left-step accumulation is 40.
\<close>

theorem pump_cum_discharge_stays_zero:
  "\<exists>r. get_pump_attributes_and_statistics pump_example_ds [pump_example] = Inr [r] \<and>
       pl_cum_discharge r = 0 \<and>
       py_round (left_step_sum 0 (timestamps pump_example_ds) [2, 2, 2]) 3 = 40"
  by (simp add: get_pump_attributes_and_statistics_def pump_example_ds_def pump_example_def
      get_agg_cum_if_available_def series_read_def py_index_def unmasked_def pump_stats_row_def
      np_binary_def ma_maximum_def round_element_def py_round_def)

subsection \<open>Elements without a counterpart in the results\<close>

lemma unmapped_manhole_is_skipped:
  "get_manhole_attributes_and_statistics scenario1_ds scenario1_nodes
     [unmapped_manhole, scenario1_manhole] [unmapped_manhole, scenario1_manhole] =
   ([Manhole_not_in_results 3],
    Inr [manhole_stats_row scenario1_manhole 0 10 (3 / 2) (Sample (4 / 5) False)])"
  by (simp add: get_manhole_attributes_and_statistics_def initial_h_max_def
      agg_h_max_available_def get_values_by_timestep_nr_index_def py_index_def
      scenario1_ds_def scenario1_nodes_def scenario1_manhole_def unmapped_manhole_def
      node_mapping_def series_read_def unmasked_def)

lemma unmapped_pipe_raises:
  "pipes_mapping (Some (pipe_id p)) = None \<Longrightarrow>
   pipe_stats_loop pipes_mapping (p # ps) lg acc = (lg @ [No_result_for_pipe (pipe_id p)], Inl KeyError)"
  by simp

lemma unmapped_weir_raises:
  "weirs_mapping (Some (weir_id w)) = None \<Longrightarrow>
   weir_stats_loop weirs_mapping (w # ws) acc = Inl KeyError"
  by simp

text \<open>
  C2. A static element without a counterpart in the results should be logged, left out
  and the run should go on. The manhole loop does so (\<open>unmapped_manhole_is_skipped\<close>).
  The pipe loop logs the warning and then looks the pipe up all the same, and the weir
  loop looks the weir up without a check: both raise \<^verbatim>\<open>KeyError\<close>, which ends the run
  before any pipe or weir row is written.
\<close>

theorem unmapped_pipe_or_weir_ends_run:
  "pipe_and_weir_rows [] [unmapped_pipe] [] = ([No_result_for_pipe 12], Inl KeyError) \<and>
   pipe_and_weir_rows [] [] [unmapped_weir] = ([], Inl KeyError)"
  by (simp add: pipe_and_weir_rows_def flowline_mapping_def unmapped_pipe_def unmapped_weir_def)

subsection \<open>The profile height of a pipe\<close>

lemma foldl_py_max_ge: "m \<le> foldl (\<lambda>m y. if m < y then y else m) m (xs::'a::linorder list)"
  by (induction xs arbitrary: m) (auto intro: order_trans less_imp_le)

lemma foldl_py_max_mem:
  "foldl (\<lambda>m y. if m < y then y else m) m xs \<in> insert m (set (xs::'a::linorder list))"
  by (induction xs arbitrary: m) auto

lemma foldl_py_max_upper:
  "u \<in> set xs \<Longrightarrow> u \<le> foldl (\<lambda>m y. if m < y then y else m) m (xs::'a::linorder list)"
proof (induction xs arbitrary: m)
  case Nil
  then show ?case by simp
next
  case (Cons x xs)
  show ?case
  proof (cases "u = x")
    case True
    have "x \<le> (if m < x then x else m)" by auto
    also have "\<dots> \<le> foldl (\<lambda>m y. if m < y then y else m) (if m < x then x else m) xs"
      by (rule foldl_py_max_ge)
    finally show ?thesis using True by simp
  next
    case False
    with Cons.prems have "u \<in> set xs" by simp
    from Cons.IH[OF this] show ?thesis by simp
  qed
qed

lemma py_max_greatest:
  "xs \<noteq> [] \<Longrightarrow> \<exists>t. py_max xs = Inr t \<and> t \<in> set xs \<and> (\<forall>u \<in> set xs. u \<le> t)"
proof (cases xs)
  case Nil
  then show "xs \<noteq> [] \<Longrightarrow> ?thesis" by simp
next
  case (Cons x ys)
  have "foldl (\<lambda>m y. if m < y then y else m) x ys \<in> set (x # ys)"
    using foldl_py_max_mem[of x ys] by simp
  moreover have "\<forall>u \<in> set (x # ys). u \<le> foldl (\<lambda>m y. if m < y then y else m) x ys"
    using foldl_py_max_ge[of x ys] foldl_py_max_upper[of _ ys x] by auto
  ultimately show ?thesis using Cons by simp
qed

lemma py_split_nonempty: "py_split s \<noteq> []"
  by (induction s) (auto split: list.splits)

lemma py_split_no_blank: "t \<in> set (py_split s) \<Longrightarrow> CHR '' '' \<notin> set t"
  by (induction s arbitrary: t) (auto split: list.splits if_splits)

lemma py_split_join: "join_blank (py_split s) = s"
proof (induction s)
  case Nil
  then show ?case by simp
next
  case (Cons c cs)
  obtain t ts where ts: "py_split cs = t # ts"
    using py_split_nonempty[of cs] by (cases "py_split cs") auto
  show ?case using Cons ts by (cases ts) auto
qed

lemma pipe_stats_loop_profile_height:
  "pipes_mapping (Some (pipe_id p)) = Some idx \<Longrightarrow>
   pipe_profile_height (pipe_shape p) (pipe_width p) (pipe_height p) = Inr h \<Longrightarrow>
   \<exists>r. pipe_stats_loop pipes_mapping [p] lg acc = (lg, Inr (acc @ [r])) \<and>
       ps_id r = idx \<and> profile_height r = h"
  by simp

lemma pipe_profile_height_greatest:
  "((shp = Some 1 \<or> shp = Some 2) \<longrightarrow>
      (\<exists>t. pipe_profile_height shp (Some w) ht = Inr (Some t) \<and>
           t \<in> set (py_split w) \<and> (\<forall>u \<in> set (py_split w). u \<le> t))) \<and>
   ((shp = Some 5 \<or> shp = Some 6) \<longrightarrow>
      (\<exists>t. pipe_profile_height shp wd (Some h) = Inr (Some t) \<and>
           t \<in> set (py_split h) \<and> (\<forall>u \<in> set (py_split h). u \<le> t))) \<and>
   (shp \<notin> {Some 1, Some 2, Some 5, Some 6} \<longrightarrow> pipe_profile_height shp wd ht = Inr None) \<and>
   ((shp = Some 1 \<or> shp = Some 2) \<longrightarrow> pipe_profile_height shp None ht = Inr None) \<and>
   ((shp = Some 5 \<or> shp = Some 6) \<longrightarrow> pipe_profile_height shp wd None = Inr None)"
proof (intro conjI impI)
  assume s: "shp = Some 1 \<or> shp = Some 2"
  from py_max_greatest[OF py_split_nonempty, of w] obtain t where
    "py_max (py_split w) = Inr t" "t \<in> set (py_split w)" "\<forall>u \<in> set (py_split w). u \<le> t"
    by blast
  with s show "\<exists>t. pipe_profile_height shp (Some w) ht = Inr (Some t) \<and>
           t \<in> set (py_split w) \<and> (\<forall>u \<in> set (py_split w). u \<le> t)"
    by (auto simp: pipe_profile_height_def)
next
  assume s: "shp = Some 5 \<or> shp = Some 6"
  from py_max_greatest[OF py_split_nonempty, of h] obtain t where
    "py_max (py_split h) = Inr t" "t \<in> set (py_split h)" "\<forall>u \<in> set (py_split h). u \<le> t"
    by blast
  with s show "\<exists>t. pipe_profile_height shp wd (Some h) = Inr (Some t) \<and>
           t \<in> set (py_split h) \<and> (\<forall>u \<in> set (py_split h). u \<le> t)"
    by (auto simp: pipe_profile_height_def)
next
  assume "shp \<notin> {Some 1, Some 2, Some 5, Some 6}"
  then show "pipe_profile_height shp wd ht = Inr None"
    by (simp add: pipe_profile_height_def)
next
  assume "shp = Some 1 \<or> shp = Some 2"
  then show "pipe_profile_height shp None ht = Inr None"
    by (auto simp: pipe_profile_height_def)
next
  assume "shp = Some 5 \<or> shp = Some 6"
  then show "pipe_profile_height shp wd None = Inr None"
    by (auto simp: pipe_profile_height_def)
qed

lemma pipe_stats_loop_rows:
  "pipe_stats_loop pm pipes lg acc = (lg', Inr rows) \<Longrightarrow>
   \<exists>new. rows = acc @ new \<and> length new = length pipes \<and>
     (\<forall>i < length pipes.
        pm (Some (pipe_id (pipes ! i))) = Some (ps_id (new ! i)) \<and>
        pipe_profile_height (pipe_shape (pipes ! i)) (pipe_width (pipes ! i))
          (pipe_height (pipes ! i)) = Inr (profile_height (new ! i)))"
proof (induction pipes arbitrary: lg acc)
  case Nil
  then show ?case by simp
next
  case (Cons p ps)
  from Cons.prems obtain idx h lg1 where
    idx: "pm (Some (pipe_id p)) = Some idx"
    and h: "pipe_profile_height (pipe_shape p) (pipe_width p) (pipe_height p) = Inr h"
    and rest: "pipe_stats_loop pm ps lg1
        (acc @ [\<lparr>ps_id = idx, ps_code = pipe_code p, ps_display_name = pipe_display_name p,
                  ps_sewerage_type = pipe_sewerage_type p,
                  invert_level_start = invert_level_start_point p,
                  invert_level_end = invert_level_end_point p,
                  profile_height = h, max_hydro_gradient = None,
                  ps_max_filling = None, ps_end_filling = None\<rparr>]) = (lg', Inr rows)"
    by (auto simp: Let_def split: option.splits sum.splits)
  let ?r = "\<lparr>ps_id = idx, ps_code = pipe_code p, ps_display_name = pipe_display_name p,
                  ps_sewerage_type = pipe_sewerage_type p,
                  invert_level_start = invert_level_start_point p,
                  invert_level_end = invert_level_end_point p,
                  profile_height = h, max_hydro_gradient = None,
                  ps_max_filling = None, ps_end_filling = None\<rparr>"
  from Cons.IH[OF rest] obtain new where
    rows: "rows = (acc @ [?r]) @ new" and len: "length new = length ps"
    and each: "\<forall>i < length ps.
        pm (Some (pipe_id (ps ! i))) = Some (ps_id (new ! i)) \<and>
        pipe_profile_height (pipe_shape (ps ! i)) (pipe_width (ps ! i))
          (pipe_height (ps ! i)) = Inr (profile_height (new ! i))"
    by blast
  have "\<forall>i < length (p # ps).
        pm (Some (pipe_id ((p # ps) ! i))) = Some (ps_id ((?r # new) ! i)) \<and>
        pipe_profile_height (pipe_shape ((p # ps) ! i)) (pipe_width ((p # ps) ! i))
          (pipe_height ((p # ps) ! i)) = Inr (profile_height ((?r # new) ! i))"
  proof (intro allI impI)
    fix i assume "i < length (p # ps)"
    then show "pm (Some (pipe_id ((p # ps) ! i))) = Some (ps_id ((?r # new) ! i)) \<and>
        pipe_profile_height (pipe_shape ((p # ps) ! i)) (pipe_width ((p # ps) ! i))
          (pipe_height ((p # ps) ! i)) = Inr (profile_height ((?r # new) ! i))"
      using idx h each by (cases i) simp_all
  qed
  moreover have "rows = acc @ (?r # new)" using rows by simp
  moreover have "length (?r # new) = length (p # ps)" using len by simp
  ultimately show ?case by blast
qed

text \<open>
  C9. The pipe rows written are one per pipe of the query, in its order, each under the
  flowline id the pipe is mapped to. For a pipe of shape 1 or 2 with a width, the profile
  height recorded in its row is a token of the width string that is greatest among its
  tokens in the order of strings; for shape 5 or 6 with a height, the same on the height
  string; for every other shape, and where the string looked at is null, the recorded
  profile height is null. The tokens are the pieces between single blanks
  (\<open>py_split_join\<close>, \<open>py_split_no_blank\<close>). The order is that of strings and not of
  numbers: in the rows of the three example pipes \<open>''9''\<close> is recorded for the width
  \<open>''9 10''\<close>.
\<close>

theorem recorded_profile_height:
  assumes run: "pipe_and_weir_rows flowlines pipes weirs = (lg, Inr (pipe_stats, weir_stats))"
    and i: "i < length pipes"
  shows "length pipe_stats = length pipes \<and>
     flowline_mapping ''v2_pipe'' flowlines (Some (pipe_id (pipes ! i))) =
       Some (ps_id (pipe_stats ! i)) \<and>
     ((pipe_shape (pipes ! i) = Some 1 \<or> pipe_shape (pipes ! i) = Some 2) \<longrightarrow>
        (\<forall>w. pipe_width (pipes ! i) = Some w \<longrightarrow>
           (\<exists>t. profile_height (pipe_stats ! i) = Some t \<and> t \<in> set (py_split w) \<and>
                (\<forall>u \<in> set (py_split w). u \<le> t))) \<and>
        (pipe_width (pipes ! i) = None \<longrightarrow> profile_height (pipe_stats ! i) = None)) \<and>
     ((pipe_shape (pipes ! i) = Some 5 \<or> pipe_shape (pipes ! i) = Some 6) \<longrightarrow>
        (\<forall>h. pipe_height (pipes ! i) = Some h \<longrightarrow>
           (\<exists>t. profile_height (pipe_stats ! i) = Some t \<and> t \<in> set (py_split h) \<and>
                (\<forall>u \<in> set (py_split h). u \<le> t))) \<and>
        (pipe_height (pipes ! i) = None \<longrightarrow> profile_height (pipe_stats ! i) = None)) \<and>
     (pipe_shape (pipes ! i) \<notin> {Some 1, Some 2, Some 5, Some 6} \<longrightarrow>
        profile_height (pipe_stats ! i) = None)"
proof -
  from run obtain lg0 where
    loop: "pipe_stats_loop (flowline_mapping ''v2_pipe'' flowlines) pipes [] [] = (lg0, Inr pipe_stats)"
    by (auto simp: pipe_and_weir_rows_def split: prod.splits sum.splits)
  from pipe_stats_loop_rows[OF loop] i have len: "length pipe_stats = length pipes"
    and id: "flowline_mapping ''v2_pipe'' flowlines (Some (pipe_id (pipes ! i))) =
       Some (ps_id (pipe_stats ! i))"
    and h: "pipe_profile_height (pipe_shape (pipes ! i)) (pipe_width (pipes ! i))
          (pipe_height (pipes ! i)) = Inr (profile_height (pipe_stats ! i))"
    by auto
  note g = pipe_profile_height_greatest[of "pipe_shape (pipes ! i)" _ "pipe_height (pipes ! i)"
      "pipe_width (pipes ! i)"]
  have w: "\<exists>t. profile_height (pipe_stats ! i) = Some t \<and> t \<in> set (py_split w) \<and>
                (\<forall>u \<in> set (py_split w). u \<le> t)"
    if "pipe_shape (pipes ! i) = Some 1 \<or> pipe_shape (pipes ! i) = Some 2"
      "pipe_width (pipes ! i) = Some w" for w
    using pipe_profile_height_greatest[of "pipe_shape (pipes ! i)" w "pipe_height (pipes ! i)"]
      that h by auto
  have wn: "profile_height (pipe_stats ! i) = None"
    if "pipe_shape (pipes ! i) = Some 1 \<or> pipe_shape (pipes ! i) = Some 2"
      "pipe_width (pipes ! i) = None"
    using pipe_profile_height_greatest[of "pipe_shape (pipes ! i)" _ "pipe_height (pipes ! i)"]
      that h by auto
  have hh: "\<exists>t. profile_height (pipe_stats ! i) = Some t \<and> t \<in> set (py_split x) \<and>
                (\<forall>u \<in> set (py_split x). u \<le> t)"
    if "pipe_shape (pipes ! i) = Some 5 \<or> pipe_shape (pipes ! i) = Some 6"
      "pipe_height (pipes ! i) = Some x" for x
    using pipe_profile_height_greatest[of "pipe_shape (pipes ! i)" _ _ "pipe_width (pipes ! i)" x]
      that h by auto
  have hn: "profile_height (pipe_stats ! i) = None"
    if "pipe_shape (pipes ! i) = Some 5 \<or> pipe_shape (pipes ! i) = Some 6"
      "pipe_height (pipes ! i) = None"
    using pipe_profile_height_greatest[of "pipe_shape (pipes ! i)" _ _ "pipe_width (pipes ! i)"]
      that h by auto
  have other: "profile_height (pipe_stats ! i) = None"
    if "pipe_shape (pipes ! i) \<notin> {Some 1, Some 2, Some 5, Some 6}"
    using pipe_profile_height_greatest[of "pipe_shape (pipes ! i)" _ "pipe_height (pipes ! i)"
        "pipe_width (pipes ! i)"] that h by auto
  from len id w wn hh hn other show ?thesis by blast
qed

theorem recorded_profile_height_witness:
  "\<exists>rows. pipe_and_weir_rows pipe_example_flowlines pipe_examples [] = ([], Inr (rows, [])) \<and>
     length rows = 3 \<and> map ps_id rows = [0, 1, 2] \<and>
     map profile_height rows = [Some ''9'', Some ''1.25'', None]"
proof -
  obtain rows where run: "pipe_and_weir_rows pipe_example_flowlines pipe_examples [] = ([], Inr (rows, []))"
    by (simp add: pipe_and_weir_rows_def pipe_example_flowlines_def pipe_examples_def
        flowline_mapping_def pipe_profile_height_def)
  have l: "length pipe_examples = 3" by (simp add: pipe_examples_def)
  have i0: "0 < length pipe_examples" and i1: "1 < length pipe_examples"
    and i2: "2 < length pipe_examples" by (simp_all add: l)
  note t0 = recorded_profile_height[OF run i0]
  note t1 = recorded_profile_height[OF run i1]
  note t2 = recorded_profile_height[OF run i2]
  have len: "length rows = 3" using t0 l by simp
  have ids: "ps_id (rows ! 0) = 0" "ps_id (rows ! 1) = 1" "ps_id (rows ! 2) = 2"
    using t0 t1 t2
    by (simp_all add: flowline_mapping_def pipe_example_flowlines_def pipe_examples_def)
  have s0: "pipe_shape (pipe_examples ! 0) = Some 2" "pipe_width (pipe_examples ! 0) = Some ''9 10''"
    and s1: "pipe_shape (pipe_examples ! 1) = Some 5"
      "pipe_height (pipe_examples ! 1) = Some ''0.5 1.25''"
    and s2: "pipe_shape (pipe_examples ! 2) \<notin> {Some 1, Some 2, Some 5, Some 6}"
    by (simp_all add: pipe_examples_def)
  from t0 s0 obtain t where t: "profile_height (rows ! 0) = Some t" "t \<in> set (py_split ''9 10'')"
    "\<forall>u \<in> set (py_split ''9 10''). u \<le> t" by blast
  then have h0: "profile_height (rows ! 0) = Some ''9''" by auto
  from t1 s1 obtain t' where t': "profile_height (rows ! 1) = Some t'"
    "t' \<in> set (py_split ''0.5 1.25'')" "\<forall>u \<in> set (py_split ''0.5 1.25''). u \<le> t'" by blast
  then have h1: "profile_height (rows ! 1) = Some ''1.25''" by auto
  from t2 s2 have h2: "profile_height (rows ! 2) = None" by blast
  from len obtain a b c where rows: "rows = [a, b, c]"
    by (cases rows; simp; cases "tl rows"; simp; cases "tl (tl rows)"; auto)
  from ids h0 h1 h2 have m: "map ps_id rows = [0, 1, 2]"
    "map profile_height rows = [Some ''9'', Some ''1.25'', None]"
    by (simp_all add: rows)
  show ?thesis
    by (rule exI[of _ rows]) (intro conjI run len m)
qed

subsection \<open>The manhole scenario\<close>

text \<open>
  C7 (as the code has it). In the run of three steps at 0, 10 and 20 seconds with one
  mapped manhole of surface level 1 and water levels 0.5, 1.5 and 0.8, where the source has
  no aggregated maximum and the read of step number \<open>-1\<close> made by the first pass of the
  loop yields a level not above 1.5 (under array indexing it is the last step, 0.8), the
  row written has the duration \<open>10 / 3600\<close> rounded to three decimals, which is 0.003,
  the maximum water level 1.5 and the end water level 0.8 (a null when the sample of the
  last step is masked).
\<close>

theorem manhole_scenario:
  assumes ts: "timestamps ds = [0, 10, 20]"
    and noagg: "''s1_max'' \<notin> set (get_available_variables ds)"
    and r0: "get_values_by_timestep_nr ds ''s1'' 0 = Inr [Sample (1 / 2) b0]"
    and r1: "get_values_by_timestep_nr ds ''s1'' 1 = Inr [Sample (3 / 2) b1]"
    and r2: "get_values_by_timestep_nr ds ''s1'' 2 = Inr [Sample (4 / 5) b2]"
    and rm: "get_values_by_timestep_nr ds ''s1'' (- 1) = Inr [Sample x bm]"
    and x: "x \<le> 3 / 2"
    and surf: "surface_level m = 1"
    and mapped: "node_mapping nodes (connection_node_id m) = Some 0"
  shows "\<exists>r. get_manhole_attributes_and_statistics ds nodes [m] [m] = ([], Inr [r]) \<and>
             duration_water_on_surface r = py_round (10 / 3600) 3 \<and>
             duration_water_on_surface r = 3 / 1000 \<and>
             max_waterlevel r = 3 / 2 \<and> end_waterlevel r = (if b2 then None else Some (4 / 5))"
proof -
  have m1: "max (- 9999) x \<le> 3 / 2" using x by simp
  have "max (max (max (- 9999) x) (1 / 2)) (3 / 2) = (3 / 2 :: real)"
    using x by (simp add: max_def)
  then show ?thesis
    using ts noagg r0 r1 r2 rm surf mapped
    by (simp add: get_manhole_attributes_and_statistics_def initial_h_max_def
        agg_h_max_available_def get_values_by_timestep_nr_index_def py_index_def
        manhole_stats_row_def round_element_def py_round_def)
qed

theorem manhole_scenario_witness:
  "\<exists>r. get_manhole_attributes_and_statistics scenario1_ds scenario1_nodes
          [scenario1_manhole] [scenario1_manhole] = ([], Inr [r]) \<and>
       duration_water_on_surface r = 3 / 1000 \<and>
       max_waterlevel r = 3 / 2 \<and> end_waterlevel r = Some (4 / 5)"
proof -
  have ts: "timestamps scenario1_ds = [0, 10, 20]"
    and noagg: "''s1_max'' \<notin> set (get_available_variables scenario1_ds)"
    and r0: "get_values_by_timestep_nr scenario1_ds ''s1'' 0 = Inr [Sample (1 / 2) False]"
    and r1: "get_values_by_timestep_nr scenario1_ds ''s1'' 1 = Inr [Sample (3 / 2) False]"
    and r2: "get_values_by_timestep_nr scenario1_ds ''s1'' 2 = Inr [Sample (4 / 5) False]"
    and rm: "get_values_by_timestep_nr scenario1_ds ''s1'' (- 1) = Inr [Sample (4 / 5) False]"
    by (simp_all add: scenario1_ds_def series_read_def unmasked_def py_index_def)
  have x: "(4 / 5 :: real) \<le> 3 / 2" by simp
  have surf: "surface_level scenario1_manhole = 1"
    by (simp add: scenario1_manhole_def)
  have mapped: "node_mapping scenario1_nodes (connection_node_id scenario1_manhole) = Some 0"
    by (simp add: scenario1_nodes_def scenario1_manhole_def node_mapping_def)
  from manhole_scenario[OF ts noagg r0 r1 r2 rm x surf mapped] show ?thesis
    unfolding if_False by blast
qed

text \<open>
  The duration is not \<open>10 / 3600\<close> hours itself: the row holds the value rounded to three
  decimals.
\<close>

theorem manhole_scenario_duration_is_rounded:
  "\<not> (\<exists>r. get_manhole_attributes_and_statistics scenario1_ds scenario1_nodes
            [scenario1_manhole] [scenario1_manhole] = ([], Inr [r]) \<and>
          duration_water_on_surface r = 10 / 3600 \<and>
          max_waterlevel r = 3 / 2 \<and> end_waterlevel r = Some (4 / 5))"
  by (simp add: get_manhole_attributes_and_statistics_def initial_h_max_def
      agg_h_max_available_def get_values_by_timestep_nr_index_def py_index_def
      scenario1_ds_def scenario1_nodes_def scenario1_manhole_def
      node_mapping_def series_read_def unmasked_def manhole_stats_row_def round_element_def
      py_round_def)

subsection \<open>Provenance rows\<close>

lemma find_set_stat_source_same:
  "\<exists>r. find (\<lambda>r. ss_table r = t \<and> ss_field r = f) (set_stat_source s t f a p ts) = Some r \<and>
       from_agg r = a \<and> input_param r = p \<and> ss_timestep r = ts"
  by (induction s) auto


lemma record_sources_snoc:
  "record_sources s (cs @ [(t, f, a, p, ts)]) = set_stat_source (record_sources s cs) t f a p ts"
  by (simp add: record_sources_def)





lemma avg_timestep_truncates:
  "2 \<le> length ts \<Longrightarrow> avg_timestep ts = Inr (py_int (last ts / (real (length ts) - 1)))"
  by (auto simp: avg_timestep_def)
















text \<open>
  The field left out: \<^verbatim>\<open>perc_max_discharge\<close> of a pump is computed from the maximum of
  the raw series \<^verbatim>\<open>q_pump\<close>, yet with \<^verbatim>\<open>q_pump_cum\<close> available its row is recorded as
  coming from the aggregate, with a null step.
\<close>

lemma perc_max_discharge_recorded_as_aggregate:
  assumes agg: "''q_pump_cum'' \<in> set (get_available_variables ds)"
    and len: "2 \<le> length (timestamps ds)"
  shows "\<exists>s r. pump_provenance ds store = Inr s \<and>
     find (\<lambda>r. ss_table r = ''pumpline_stats'' \<and> ss_field r = ''perc_max_discharge'') s = Some r \<and>
     from_agg r \<and> ss_timestep r = None"
proof -
  define avg where "avg = py_int (last (timestamps ds) / (real (length (timestamps ds)) - 1))"
  have a: "avg_timestep (timestamps ds) = Inr avg"
    using avg_timestep_truncates[OF len] by (simp add: avg_def)
  have c: "pump_source_calls True avg =
      butlast (pump_source_calls True avg) @
      [(''pumpline_stats'', ''perc_max_discharge'', True, ''q_pump_cum'', None)]"
    by (simp add: pump_source_calls_def)
  have "pump_provenance ds store = Inr (record_sources store (pump_source_calls True avg))"
    using agg by (simp add: pump_provenance_def agg_cum_available_def pump_stat_sources_def a)
  moreover have "\<exists>r. find (\<lambda>r. ss_table r = ''pumpline_stats'' \<and> ss_field r = ''perc_max_discharge'')
      (record_sources store (pump_source_calls True avg)) = Some r \<and> from_agg r \<and>
      ss_timestep r = None"
    by (subst c, subst record_sources_snoc) (use find_set_stat_source_same in blast)
  ultimately show ?thesis by blast
qed

subsection \<open>Rounding\<close>

lemma py_round_nonneg: "0 \<le> x \<Longrightarrow> 0 \<le> py_round x n"
  by (simp add: py_round_def)

lemma py_round_le_int:
  assumes "0 \<le> x" "x \<le> real_of_int k"
  shows "py_round x n \<le> real_of_int k"
proof -
  have "x * 10 ^ n \<le> real_of_int k * 10 ^ n"
    using assms by (simp add: mult_right_mono)
  moreover have "real_of_int (k * 10 ^ n) = real_of_int k * 10 ^ n" by simp
  ultimately have "x * 10 ^ n + 1 / 2 < real_of_int (k * 10 ^ n) + 1" by linarith
  then have "\<lfloor>x * 10 ^ n + 1 / 2\<rfloor> \<le> k * 10 ^ n"
    by (simp only: floor_le_iff)
  then have "real_of_int \<lfloor>x * 10 ^ n + 1 / 2\<rfloor> \<le> real_of_int (k * 10 ^ n)"
    by (simp only: of_int_le_iff)
  then have "real_of_int \<lfloor>x * 10 ^ n + 1 / 2\<rfloor> / 10 ^ n \<le> real_of_int k"
    by (simp add: field_simps)
  then show ?thesis using assms(1) by (simp add: py_round_def)
qed

lemma py_round_error: "\<bar>py_round x n - x\<bar> \<le> 1 / (2 * 10 ^ n)"
proof -
  have pos: "\<bar>real_of_int \<lfloor>y * 10 ^ n + 1 / 2\<rfloor> / 10 ^ n - y\<bar> \<le> 1 / (2 * 10 ^ n)" for y :: real
  proof -
    define z where "z = y * 10 ^ n + 1 / 2"
    have "real_of_int \<lfloor>z\<rfloor> \<le> z" "z < real_of_int \<lfloor>z\<rfloor> + 1" by linarith+
    then have "real_of_int \<lfloor>z\<rfloor> - y * 10 ^ n \<le> 1 / 2"
      and "- (1 / 2) \<le> real_of_int \<lfloor>z\<rfloor> - y * 10 ^ n"
      unfolding z_def by linarith+
    then have "\<bar>real_of_int \<lfloor>z\<rfloor> - y * 10 ^ n\<bar> \<le> 1 / 2"
      by (intro abs_leI) linarith+
    then have "\<bar>real_of_int \<lfloor>z\<rfloor> - y * 10 ^ n\<bar> / 10 ^ n \<le> (1 / 2) / 10 ^ n"
      by (rule divide_right_mono) simp
    moreover have "(1 / 2) / 10 ^ n = 1 / (2 * 10 ^ n :: real)" by simp
    moreover have "\<bar>real_of_int \<lfloor>z\<rfloor> - y * 10 ^ n\<bar> / 10 ^ n = \<bar>real_of_int \<lfloor>z\<rfloor> / 10 ^ n - y\<bar>"
    proof -
      have "real_of_int \<lfloor>z\<rfloor> / 10 ^ n - y = (real_of_int \<lfloor>z\<rfloor> - y * 10 ^ n) / 10 ^ n"
        by (simp add: field_simps)
      then show ?thesis by (simp add: abs_divide)
    qed
    ultimately show ?thesis unfolding z_def by (simp only:)
  qed
  show ?thesis
  proof (cases "0 \<le> x")
    case True
    then show ?thesis using pos[of x] by (simp add: py_round_def)
  next
    case False
    have "\<bar>- (real_of_int \<lfloor>- x * 10 ^ n + 1 / 2\<rfloor> / 10 ^ n) - x\<bar> =
          \<bar>real_of_int \<lfloor>(- x) * 10 ^ n + 1 / 2\<rfloor> / 10 ^ n - (- x)\<bar>"
      by (simp add: abs_minus_commute)
    then show ?thesis using False pos[of "- x"] by (simp add: py_round_def)
  qed
qed

subsection \<open>Derived fields\<close>

lemma get_filling_range:
  assumes "get_filling sl el si ei ph = Inr (Some p)"
  shows "0 \<le> p \<and> p \<le> 100"
proof -
  from assms obtain a b c d h where v: "sl = Some a" "el = Some b" "si = Some c" "ei = Some d" "ph = Some h"
    by (auto simp: get_filling_def split: option.splits)
  from assms v have h: "h \<noteq> 0"
    by (auto simp: get_filling_def py_truediv_def split: if_splits)
  define fs where "fs = max 0 (min 1 ((a - c) / h))"
  define fe where "fe = max 0 (min 1 ((b - d) / h))"
  have r: "0 \<le> fs" "fs \<le> 1" "0 \<le> fe" "fe \<le> 1" by (simp_all add: fs_def fe_def)
  from assms v h have p: "p = py_round (100 * (fs + fe) / 2) 3"
    by (simp add: get_filling_def py_truediv_def fs_def fe_def Let_def)
  have lo: "0 \<le> 100 * (fs + fe) / 2" using r by simp
  have hi: "100 * (fs + fe) / 2 \<le> real_of_int 100" using r by simp
  show ?thesis
    using py_round_nonneg[OF lo, of 3] py_round_le_int[OF lo hi, of 3] by (simp add: p)
qed

lemma get_filling_null:
  "sl = None \<or> el = None \<or> si = None \<or> ei = None \<or> ph = None \<Longrightarrow>
   get_filling sl el si ei ph = Inr None"
  by (auto simp: get_filling_def split: option.splits)

lemma hydro_gradient_null:
  "len = None \<or> (\<exists>l. len = Some l \<and> l \<le> 0) \<or> head = None \<Longrightarrow> hydro_gradient len head None = None"
  by (auto simp: hydro_gradient_def split: option.splits)

lemma perc_of_max_raises: "m = None \<or> m = Some 0 \<Longrightarrow> \<exists>e. perc_of_max x m = Inl e"
  by (auto simp: perc_of_max_def py_truediv_def split: option.splits)

lemma weir_update_raises:
  "m = None \<or> m = Some 0 \<or> mp = None \<or> mp = Some 0 \<or> mn = None \<or> mn = Some 0 \<Longrightarrow>
   \<exists>e. weir_update m mp mn st w = Inl e"
proof -
  assume a: "m = None \<or> m = Some 0 \<or> mp = None \<or> mp = Some 0 \<or> mn = None \<or> mn = Some 0"
  then consider "m = None \<or> m = Some 0" | "mp = None \<or> mp = Some 0" | "mn = None \<or> mn = Some 0"
    by blast
  then show ?thesis
  proof cases
    case 1
    from perc_of_max_raises[OF this, of "cum_discharge st"] show ?thesis
      by (auto simp: weir_update_def)
  next
    case 2
    from perc_of_max_raises[OF this, of "cum_discharge_positive st"] show ?thesis
      by (auto simp: weir_update_def split: sum.splits)
  next
    case 3
    from perc_of_max_raises[OF this, of "cum_discharge_negative st"] show ?thesis
      by (auto simp: weir_update_def split: sum.splits)
  qed
qed

lemma manhole_filling_unclipped:
  "surface_level m \<noteq> bottom_level m \<Longrightarrow>
   ms_max_filling (manhole_stats_row m idx tws hm (Sample he False)) =
     Finite (py_round (100 * (hm - bottom_level m) / (surface_level m - bottom_level m)) 1) \<and>
   ms_end_filling (manhole_stats_row m idx tws hm (Sample he False)) =
     Finite (py_round (100 * (he - bottom_level m) / (surface_level m - bottom_level m)) 1)"
  by (simp add: manhole_stats_row_def np_divide_def)

lemma percentage_in_range:
  assumes "(b::real) < s" "b \<le> h" "h \<le> s"
  shows "0 \<le> py_round (100 * (h - b) / (s - b)) n \<and> py_round (100 * (h - b) / (s - b)) n \<le> 100"
proof -
  have lo: "0 \<le> 100 * (h - b) / (s - b)" using assms by simp
  have "(h - b) / (s - b) \<le> 1" using assms by simp
  then have "100 * ((h - b) / (s - b)) \<le> 100 * 1"
    by (intro mult_left_mono) simp_all
  then have hi: "100 * (h - b) / (s - b) \<le> real_of_int 100"
    by (simp only: times_divide_eq_right mult_1_right of_int_numeral)
  show ?thesis using py_round_nonneg[OF lo, of n] py_round_le_int[OF lo hi, of n] by simp
qed


lemma pipe_update_filling_range:
  assumes "pipe_update st pp = Inr pp'"
    and "ps_max_filling pp' = Some q \<or> ps_end_filling pp' = Some q"
  shows "0 \<le> q \<and> q \<le> 100"
proof -
  from assms have "get_filling (max_waterlevel_start st) (max_waterlevel_end st)
               (invert_level_start pp) (invert_level_end pp) (profile_height pp) = Inr (Some q) \<or>
             get_filling (end_waterlevel_start st) (end_waterlevel_end st)
               (invert_level_start pp) (invert_level_end pp) (profile_height pp) = Inr (Some q)"
    by (auto simp: pipe_update_def split: sum.splits)
  then show ?thesis using get_filling_range by blast
qed

text \<open>
  C6. A derived field whose division is undefined should be written as null and never
  raise. That holds for a filling ratio with a null input (\<open>get_filling_null\<close>) and for
  the hydraulic gradient, which is guarded (\<open>hydro_gradient_null\<close>). It fails for the
  two divisions without a guard: every weir percentage raises when the network-wide
  maximum is zero or null (\<open>weir_update_raises\<close>), as it is for weirs that carried no
  water, and the filling ratio raises on a profile height of zero.
\<close>

theorem undefined_division_raises:
  "update_weirs [dry_weir_flowline] [dry_weir_flowline_stats] [dry_weir_stats] =
     Inl ZeroDivisionError \<and>
   get_filling (Some 2) (Some 2) (Some 1) (Some 1) (Some 0) = Inl ZeroDivisionError"
  by (simp add: update_weirs_def weir_flowline_stats_def sql_max_def List.map_filter_def
      dry_weir_flowline_def dry_weir_flowline_stats_def dry_weir_stats_def weir_update_def
      perc_of_max_def py_truediv_def get_filling_def)


text \<open>
  C3. Every filling percentage written should lie between 0 and 100 or be null, and a
  manhole's should be null unless its bottom lies below its surface. The pipe rows keep
  to that (\<open>get_filling_range\<close>, \<open>pipe_update_filling_range\<close>): \<^verbatim>\<open>get_filling\<close> clips
  both ends. The manhole rows do not: the percentage is computed without a clip and
  without a check of the two levels (\<open>manhole_filling_unclipped\<close>). In the manhole
  scenario the water rises to 1.5 over a surface at 1 and a bottom at 0 and the maximum
  filling written is 150; for a manhole whose bottom (2) lies above its surface (1) the
  fillings written are 50 and 120 where null is called for.
\<close>

theorem manhole_filling_unbounded:
  "(\<exists>r. get_manhole_attributes_and_statistics scenario1_ds scenario1_nodes
          [scenario1_manhole] [scenario1_manhole] = ([], Inr [r]) \<and>
        bottom_level scenario1_manhole < surface_level scenario1_manhole \<and>
        ms_max_filling r = Finite 150) \<and>
   (\<exists>r. get_manhole_attributes_and_statistics scenario1_ds
          [\<lparr>node_id = 0, node_spatialite_id = Some 20\<rparr>]
          [inverted_manhole] [inverted_manhole] = ([], Inr [r]) \<and>
        surface_level inverted_manhole < bottom_level inverted_manhole \<and>
        ms_max_filling r = Finite 50 \<and> ms_end_filling r = Finite 120)"
  by (simp add: get_manhole_attributes_and_statistics_def initial_h_max_def
      agg_h_max_available_def get_values_by_timestep_nr_index_def py_index_def
      scenario1_ds_def scenario1_nodes_def scenario1_manhole_def inverted_manhole_def
      node_mapping_def series_read_def unmasked_def manhole_stats_row_def round_element_def
      py_round_def np_divide_def)

subsection \<open>Flowlines: the running maximum of the head difference\<close>

lemma np_take_length: "np_take h idx = Inr xs \<Longrightarrow> length xs = length idx"
  by (induction idx arbitrary: xs) (auto split: sum.splits)

lemma np_take_nth:
  "np_take h idx = Inr xs \<Longrightarrow> j < length idx \<Longrightarrow> py_index h (idx ! j) = Inr (xs ! j)"
proof (induction idx arbitrary: xs j)
  case Nil
  then show ?case by simp
next
  case (Cons k ks)
  from Cons.prems(1) obtain x ys where k: "py_index h k = Inr x" and ys: "np_take h ks = Inr ys"
    and xs: "xs = x # ys"
    by (auto split: sum.splits)
  show ?case
  proof (cases j)
    case 0
    then show ?thesis by (simp add: k xs)
  next
    case (Suc j')
    with Cons.prems(2) have "j' < length ks" by simp
    from Cons.IH[OF ys this] show ?thesis by (simp add: Suc xs)
  qed
qed

lemma np_take_array_Inr: "np_take_array h idx = Inr xs \<Longrightarrow> np_take h idx = Inr xs"
  by (simp add: np_take_array_def split: if_splits)

lemma bind_err_Inr: "bind_err m f = Inr y \<longleftrightarrow> (\<exists>x. m = Inr x \<and> f x = Inr y)"
  by (cases m) (simp_all add: bind_err_def)

text \<open>Where both arrays have an entry \<open>j\<close>, the result of an elementwise operation has
  one too, made of these two entries, whether or not an array was stretched.\<close>

lemma np_binary_nth:
  assumes "np_binary f xs ys = Inr r" and "j < length xs" and "j < length ys"
  shows "j < length r \<and> r ! j = f (xs ! j) (ys ! j)"
proof (cases "length xs = length ys")
  case True
  with assms show ?thesis by (auto simp: np_binary_def)
next
  case False
  show ?thesis
  proof (cases "length ys = 1")
    case True
    with assms False have "j = 0" and "r = map (\<lambda>x. f x (ys ! 0)) xs"
      by (auto simp: np_binary_def)
    with assms(2) show ?thesis by simp
  next
    case ny: False
    with assms False have "length xs = 1" and r: "r = map (\<lambda>y. f (xs ! 0) y) ys"
      by (auto simp: np_binary_def split: if_splits)
    with assms(2) have "j = 0" by simp
    with assms(3) r show ?thesis by simp
  qed
qed

text \<open>An operation written into the first array keeps its length; entry \<open>j\<close> is made of
  entry \<open>j\<close> of the first array and of one entry of the second, the same for every
  operation on arrays of these lengths.\<close>

lemma np_inplace_Inr:
  assumes "np_inplace f acc xs = Inr r"
  shows "length r = length acc \<and>
         (\<forall>j < length acc. r ! j = f (acc ! j) (xs ! (if length xs = length acc then j else 0)))"
  using assms by (auto simp: np_inplace_def split: if_splits)

lemma np_inplace_nth:
  assumes "np_inplace f acc xs = Inr r" and "j < length acc" and "j < length xs"
  shows "j < length r \<and> r ! j = f (acc ! j) (xs ! j)"
proof -
  from assms(1) have l: "length r = length acc"
    and v: "r ! j = f (acc ! j) (xs ! (if length xs = length acc then j else 0))"
    using np_inplace_Inr[OF assms(1)] assms(2) by blast+
  have "length xs = length acc \<or> length xs = 1"
    using assms(1) by (auto simp: np_inplace_def split: if_splits)
  with assms(3) have "(if length xs = length acc then j else 0) = j"
    by auto
  with l v assms(2) show ?thesis by simp
qed

lemma flowline_step_reads:
  assumes "flowline_step ds gc gp gn si ei i dt a = Inr a'"
  obtains q v h hs he where
    "get_values_by_timestep_nr ds ''q'' (i - 1) = Inr q"
    "get_values_by_timestep_nr ds ''u1'' (i - 1) = Inr v"
    "get_values_by_timestep_nr ds ''s1'' (i - 1) = Inr h"
    "np_take h si = Inr hs" "np_take h ei = Inr he"
    "(if \<not> gc then np_inplace (\<lambda>c s. c + ma_times s dt) (qcum a) q else Inr (qcum a)) =
       Inr (qcum a')"
    "(if \<not> gp then np_inplace (\<lambda>c s. c + ma_times (ma_clip_min s) dt) (qcum_pos a) q
      else Inr (qcum_pos a)) = Inr (qcum_pos a')"
    "(if \<not> gn then np_inplace (\<lambda>c s. c - ma_times (ma_clip_max s) dt) (qcum_neg a) q
      else Inr (qcum_neg a)) = Inr (qcum_neg a')"
    "update_dh_max (dh_max a) hs he = Inr (dh_max a')"
proof -
  from assms obtain q c p n v h hs he d where
    "get_values_by_timestep_nr ds ''q'' (i - 1) = Inr q"
    "(if \<not> gc then np_inplace (\<lambda>c s. c + ma_times s dt) (qcum a) q else Inr (qcum a)) = Inr c"
    "(if \<not> gp then np_inplace (\<lambda>c s. c + ma_times (ma_clip_min s) dt) (qcum_pos a) q
      else Inr (qcum_pos a)) = Inr p"
    "(if \<not> gn then np_inplace (\<lambda>c s. c - ma_times (ma_clip_max s) dt) (qcum_neg a) q
      else Inr (qcum_neg a)) = Inr n"
    "get_values_by_timestep_nr ds ''u1'' (i - 1) = Inr v"
    "get_values_by_timestep_nr ds ''s1'' (i - 1) = Inr h"
    "np_take_array h si = Inr hs" "np_take_array h ei = Inr he"
    "update_dh_max (dh_max a) hs he = Inr d"
    "qcum a' = c" "qcum_pos a' = p" "qcum_neg a' = n" "dh_max a' = d"
    unfolding flowline_step_def bind_err_Inr by force
  then show ?thesis
    using that np_take_array_Inr by blast
qed

lemma update_dh_max_nth:
  assumes "update_dh_max dh hs he = Inr r"
    and "j < length dh" and "j < length hs" and "j < length he"
  shows "j < length r \<and>
     r ! j = (if mask (hs ! j) \<or> mask (he ! j) then dh ! j
              else max (dh ! j) \<bar>data (hs ! j) - data (he ! j)\<bar>)"
proof -
  from assms(1) obtain diff where
    d: "np_binary (\<lambda>s e. Sample \<bar>data s - data e\<bar> (mask s \<or> mask e)) hs he = Inr diff"
    and r: "np_inplace (\<lambda>d x. if \<not> mask x then max d (data x) else d) dh diff = Inr r"
    unfolding update_dh_max_def bind_err_Inr by blast
  from np_binary_nth[OF d assms(3,4)] have jd: "j < length diff"
    and dj: "diff ! j = Sample \<bar>data (hs ! j) - data (he ! j)\<bar> (mask (hs ! j) \<or> mask (he ! j))"
    by simp_all
  from np_inplace_nth[OF r assms(2) jd] show ?thesis by (simp add: dj)
qed

lemma flowline_step_dh_max:
  assumes step: "flowline_step ds gc gp gn si ei i dt a = Inr a'"
    and j: "j < length (dh_max a)" "j < length si" "j < length ei"
  shows "\<exists>s e. endpoint_samples ds (si ! j) (ei ! j) i = Some (s, e) \<and>
           dh_max a' ! j =
             (if mask s \<or> mask e then dh_max a ! j else max (dh_max a ! j) \<bar>data s - data e\<bar>) \<and>
           j < length (dh_max a')"
proof -
  from step obtain h hs he where h: "get_values_by_timestep_nr ds ''s1'' (i - 1) = Inr h"
    and hs: "np_take h si = Inr hs" and he: "np_take h ei = Inr he"
    and dh: "update_dh_max (dh_max a) hs he = Inr (dh_max a')"
    by (rule flowline_step_reads)
  have ls: "length hs = length si" and le: "length he = length ei"
    using np_take_length hs he by blast+
  have s: "py_index h (si ! j) = Inr (hs ! j)" using np_take_nth[OF hs j(2)] .
  have e: "py_index h (ei ! j) = Inr (he ! j)" using np_take_nth[OF he j(3)] .
  have ep: "endpoint_samples ds (si ! j) (ei ! j) i = Some (hs ! j, he ! j)"
    by (simp add: endpoint_samples_def h s e)
  from j ls le have "j < length hs" "j < length he" by simp_all
  from update_dh_max_nth[OF dh j(1) this]
  have l: "j < length (dh_max a')" and v: "dh_max a' ! j =
      (if mask (hs ! j) \<or> mask (he ! j) then dh_max a ! j
       else max (dh_max a ! j) \<bar>data (hs ! j) - data (he ! j)\<bar>)"
    by simp_all
  from ep v l show ?thesis by blast
qed

lemma flowline_loop_dh_max:
  "flowline_loop ds gc gp gn si ei i prev ts a = Inr a' \<Longrightarrow>
   j < length (dh_max a) \<Longrightarrow> j < length si \<Longrightarrow> j < length ei \<Longrightarrow>
   dh_max a' ! j = foldl max (dh_max a ! j) (head_differences ds (si ! j) (ei ! j) i (length ts))"
proof (induction ts arbitrary: i prev a)
  case Nil
  then show ?case by simp
next
  case (Cons t ts)
  from Cons.prems(1) obtain b where
    step: "flowline_step ds gc gp gn si ei i (t - prev) a = Inr b"
    and rest: "flowline_loop ds gc gp gn si ei (i + 1) t ts b = Inr a'"
    by (auto split: sum.splits)
  from flowline_step_dh_max[OF step Cons.prems(2,3,4)] obtain s e where
    ep: "endpoint_samples ds (si ! j) (ei ! j) i = Some (s, e)"
    and v: "dh_max b ! j =
             (if mask s \<or> mask e then dh_max a ! j else max (dh_max a ! j) \<bar>data s - data e\<bar>)"
    and l: "j < length (dh_max b)"
    by blast
  from Cons.IH[OF rest l Cons.prems(3,4)]
  have "dh_max a' ! j =
      foldl max (dh_max b ! j) (head_differences ds (si ! j) (ei ! j) (i + 1) (length ts))" .
  then show ?case by (simp add: ep v)
qed

text \<open>
  C4. In a pass of the loop in which the water level read for the start node or for the
  end node of a flowline is masked, the running maximum of the head difference of that
  flowline keeps its value; in a pass with both samples unmasked it becomes the greater
  of its value and the absolute difference of the two samples. Over any number of passes
  the result is therefore the maximum of the starting value and of the differences of the
  unmasked passes alone: a masked pass contributes nothing, and in particular no zero and
  no difference of the stored numbers under the mask.
\<close>

theorem masked_head_difference:
  "(flowline_step ds gc gp gn si ei i dt a = Inr a' \<and>
    j < length (dh_max a) \<and> j < length si \<and> j < length ei \<longrightarrow>
      (\<exists>s e. endpoint_samples ds (si ! j) (ei ! j) i = Some (s, e) \<and>
         dh_max a' ! j =
           (if mask s \<or> mask e then dh_max a ! j else max (dh_max a ! j) \<bar>data s - data e\<bar>))) \<and>
   (flowline_loop ds gc gp gn si ei i prev ts a = Inr a'' \<and>
    j < length (dh_max a) \<and> j < length si \<and> j < length ei \<longrightarrow>
      dh_max a'' ! j =
        foldl max (dh_max a ! j) (head_differences ds (si ! j) (ei ! j) i (length ts)))"
proof (intro conjI impI)
  assume "flowline_step ds gc gp gn si ei i dt a = Inr a' \<and>
    j < length (dh_max a) \<and> j < length si \<and> j < length ei"
  then have "flowline_step ds gc gp gn si ei i dt a = Inr a'" "j < length (dh_max a)"
    "j < length si" "j < length ei" by simp_all
  from flowline_step_dh_max[OF this]
  show "\<exists>s e. endpoint_samples ds (si ! j) (ei ! j) i = Some (s, e) \<and>
         dh_max a' ! j =
           (if mask s \<or> mask e then dh_max a ! j else max (dh_max a ! j) \<bar>data s - data e\<bar>)"
    by blast
next
  assume "flowline_loop ds gc gp gn si ei i prev ts a = Inr a'' \<and>
    j < length (dh_max a) \<and> j < length si \<and> j < length ei"
  then have "flowline_loop ds gc gp gn si ei i prev ts a = Inr a''" "j < length (dh_max a)"
    "j < length si" "j < length ei" by simp_all
  from flowline_loop_dh_max[OF this]
  show "dh_max a'' ! j =
        foldl max (dh_max a ! j) (head_differences ds (si ! j) (ei ! j) i (length ts))" .
qed

theorem masked_head_difference_witness:
  "(\<exists>a'. flowline_step flow_example_ds False False False [0] [1] 2 10
            ((initial_flow_acc flow_example_ds [0] [0] [0])\<lparr>dh_max := [1 / 2]\<rparr>) = Inr a' \<and>
         endpoint_samples flow_example_ds 0 1 2 = Some (Sample 9 True, Sample (1 / 2) False) \<and>
         dh_max a' ! 0 = 1 / 2) \<and>
   (\<exists>a''. flowline_loop flow_example_ds False False False [0] [1] 0 0 [0, 10, 20, 30]
             (initial_flow_acc flow_example_ds [0] [0] [0]) = Inr a'' \<and>
          head_differences flow_example_ds 0 1 0 4 = [1 / 10, 1 / 2, 7 / 10] \<and>
          dh_max a'' ! 0 = 7 / 10)"
proof -
  let ?a = "(initial_flow_acc flow_example_ds [0] [0] [0])\<lparr>dh_max := [1 / 2]\<rparr>"
  let ?b = "initial_flow_acc flow_example_ds [0] [0] [0]"
  obtain a' where st: "flowline_step flow_example_ds False False False [0] [1] 2 10 ?a = Inr a'"
    by (simp add: flowline_step_def bind_err_def np_inplace_def np_binary_def np_take_array_def update_dh_max_def
        ma_times_def ma_clip_min_def ma_clip_max_def ma_abs_def ma_maximum_def
        initial_flow_acc_def flow_example_ds_def series_read_def unmasked_def py_index_def)
  have ep: "endpoint_samples flow_example_ds 0 1 2 = Some (Sample 9 True, Sample (1 / 2) False)"
    by (simp add: endpoint_samples_def flow_example_ds_def series_read_def unmasked_def
        py_index_def)
  obtain a'' where lp: "flowline_loop flow_example_ds False False False [0] [1] 0 0
      [0, 10, 20, 30] ?b = Inr a''"
    by (simp add: flowline_step_def bind_err_def np_inplace_def np_binary_def np_take_array_def update_dh_max_def
        ma_times_def ma_clip_min_def ma_clip_max_def ma_abs_def ma_maximum_def
        initial_flow_acc_def flow_example_ds_def series_read_def unmasked_def py_index_def)
  have hd: "head_differences flow_example_ds 0 1 0 4 = [1 / 10, 1 / 2, 7 / 10]"
    by (simp add: numeral_eq_Suc endpoint_samples_def flow_example_ds_def series_read_def
        unmasked_def py_index_def)
  note t = masked_head_difference[where ds = flow_example_ds and si = "[0]" and ei = "[1]"
      and i = 2 and dt = 10 and a = ?a and a' = a' and j = 0 and gc = False and gp = False
      and gn = False]
  note u = masked_head_difference[where ds = flow_example_ds and si = "[0]" and ei = "[1]"
      and i = 0 and prev = 0 and ts = "[0, 10, 20, 30]" and a = ?b and a'' = a'' and j = 0
      and gc = False and gp = False and gn = False]
  have j: "(0::nat) < length (dh_max ?a)" "(0::nat) < length [0::int]" "(0::nat) < length [1::int]"
    "(0::nat) < length (dh_max ?b)"
    by (simp_all add: initial_flow_acc_def flow_example_ds_def)
  from t st j have "\<exists>s e. endpoint_samples flow_example_ds ([0] ! 0) ([1] ! 0) 2 = Some (s, e) \<and>
         dh_max a' ! 0 =
           (if mask s \<or> mask e then dh_max ?a ! 0 else max (dh_max ?a ! 0) \<bar>data s - data e\<bar>)"
    by blast
  then have r1: "dh_max a' ! 0 = 1 / 2" by (simp add: ep)
  from u lp j have "dh_max a'' ! 0 =
        foldl max (dh_max ?b ! 0) (head_differences flow_example_ds ([0] ! 0) ([1] ! 0) 0
          (length [0, 10, 20, 30 :: real]))"
    by blast
  moreover have "head_differences flow_example_ds ([0] ! 0) ([1] ! 0) 0
      (length [0, 10, 20, 30 :: real]) = [1 / 10, 1 / 2, 7 / 10]"
    by (simp add: endpoint_samples_def flow_example_ds_def series_read_def unmasked_def
        py_index_def)
  moreover have "dh_max ?b ! 0 = 0"
    by (simp add: initial_flow_acc_def flow_example_ds_def)
  ultimately have "dh_max a'' ! 0 = foldl max 0 [1 / 10, 1 / 2, 7 / 10 :: real]"
    by (simp only:)
  then have r2: "dh_max a'' ! 0 = 7 / 10" by simp
  from st ep r1 lp hd r2 show ?thesis by blast
qed

subsection \<open>Flowlines: the cumulative discharges\<close>

lemma flowline_rows_cum:
  "flowline_rows a qend vend hs he i fls = Inr rows \<Longrightarrow> r \<in> set rows \<Longrightarrow>
   \<exists>k. k < length (qcum a) \<and> k < length (qcum_pos a) \<and> k < length (qcum_neg a) \<and>
       cum_discharge r = Some (py_round (qcum a ! k) 3) \<and>
       cum_discharge_positive r = Some (py_round (qcum_pos a ! k) 3) \<and>
       cum_discharge_negative r = Some (py_round (qcum_neg a ! k) 3)"
proof (induction fls arbitrary: i rows)
  case Nil
  then show ?case by simp
next
  case (Cons f fls)
  from Cons.prems(1) obtain r0 rs where
    r0: "flowline_stats_row a qend vend hs he i f = Inr r0"
    and rs: "flowline_rows a qend vend hs he (Suc i) fls = Inr rs"
    and rows: "rows = r0 # rs"
    by (auto split: sum.splits)
  show ?case
  proof (cases "r = r0")
    case True
    from r0 show ?thesis unfolding True
      by (auto simp: flowline_stats_row_def split: if_splits option.splits)
  next
    case False
    with Cons.prems(2) rows have "r \<in> set rs" by simp
    from Cons.IH[OF rs this] show ?thesis .
  qed
qed

lemma calc_flowline_statistics_loop:
  assumes "calc_flowline_statistics ds fls = Inr rows"
  obtains qc gc qp gp qn gn a qend vend hs he where
    "get_agg_cum_if_available ds ''q_cum'' = Inr (qc, gc)"
    "get_agg_cum_if_available ds ''q_cum_positive'' = Inr (qp, gp)"
    "get_agg_cum_if_available ds ''q_cum_negative'' = Inr (qn, gn)"
    "flowline_loop ds gc gp gn (map start_node_idx fls) (map end_node_idx fls) 0 0
       (timestamps ds) (initial_flow_acc ds qc qp qn) = Inr a"
    "flowline_rows a qend vend hs he 0 fls = Inr rows"
  using assms by (auto simp: calc_flowline_statistics_def Let_def split: sum.splits prod.splits)

lemma no_aggregate:
  "p \<notin> set (get_available_variables ds) \<Longrightarrow>
   get_agg_cum_if_available ds p = Inr (replicate (nFlowLine ds) 0, False)"
  by (simp add: get_agg_cum_if_available_def)

lemma flow_example_rows:
  "\<exists>r. calc_flowline_statistics flow_example_ds [flow_example_line] = Inr [r] \<and>
       cum_discharge r = Some 20 \<and> cum_discharge_positive r = Some 40 \<and>
       cum_discharge_negative r = Some 20 \<and> max_waterlevel_head r = Some (7 / 10)"
  by (simp add: calc_flowline_statistics_def get_agg_cum_if_available_def flow_example_ds_def
      flow_example_line_def negative_start_ds_def series_read_def unmasked_def py_index_def
      initial_flow_acc_def flowline_step_def bind_err_def np_inplace_def np_binary_def
      np_take_array_def update_dh_max_def ma_times_def ma_clip_min_def ma_clip_max_def
      ma_abs_def ma_maximum_def round_element_def flowline_stats_row_def py_round_def)

text \<open>
  A masked discharge enters the three sums with its stored number, not multiplied by the
  elapsed time, and masks the maximum discharge for the rest of the run. A query without
  flowlines raises in the first pass.
\<close>

lemma masked_discharge_rows:
  "\<exists>r. calc_flowline_statistics masked_flow_ds [flow_example_line] = Inr [r] \<and>
       cum_discharge r = Some 38 \<and> cum_discharge_positive r = Some 40 \<and>
       cum_discharge_negative r = Some 2 \<and> max_discharge r = None \<and>
       max_velocity r = Some 1"
  by (simp add: calc_flowline_statistics_def get_agg_cum_if_available_def masked_flow_ds_def
      flow_example_ds_def flow_example_line_def series_read_def unmasked_def py_index_def
      initial_flow_acc_def flowline_step_def bind_err_def np_inplace_def np_binary_def
      np_take_array_def update_dh_max_def ma_times_def ma_clip_min_def ma_clip_max_def
      ma_abs_def ma_maximum_def round_element_def flowline_stats_row_def py_round_def)

lemma no_flowlines_raises:
  "calc_flowline_statistics flow_example_ds [] = Inl TypeError"
  by (simp add: calc_flowline_statistics_def get_agg_cum_if_available_def flow_example_ds_def
      series_read_def unmasked_def py_index_def initial_flow_acc_def flowline_step_def
      bind_err_def np_inplace_def np_binary_def np_take_array_def ma_times_def ma_clip_min_def
      ma_clip_max_def ma_abs_def ma_maximum_def)

lemma ma_clip_parts: "ma_times (ma_clip_min s) t + ma_times (ma_clip_max s) t = ma_times s t"
  by (simp add: ma_times_def ma_clip_min_def ma_clip_max_def max_def min_def algebra_simps)

lemma ma_clip_max_nonpos: "0 \<le> t \<Longrightarrow> ma_times (ma_clip_max s) t \<le> 0"
  by (simp add: ma_times_def ma_clip_max_def mult_nonpos_nonneg)

lemma flowline_step_conservation:
  assumes step: "flowline_step ds False False False si ei i dt a = Inr a'"
    and lp: "length (qcum_pos a) = length (qcum a)"
    and ln: "length (qcum_neg a) = length (qcum a)"
    and inv: "\<forall>j < length (qcum a). qcum_pos a ! j - qcum_neg a ! j = qcum a ! j"
  shows "length (qcum_pos a') = length (qcum a') \<and> length (qcum_neg a') = length (qcum a') \<and>
         (\<forall>j < length (qcum a'). qcum_pos a' ! j - qcum_neg a' ! j = qcum a' ! j)"
proof -
  from step obtain q where
    c: "np_inplace (\<lambda>c s. c + ma_times s dt) (qcum a) q = Inr (qcum a')"
    and p: "np_inplace (\<lambda>c s. c + ma_times (ma_clip_min s) dt) (qcum_pos a) q = Inr (qcum_pos a')"
    and n: "np_inplace (\<lambda>c s. c - ma_times (ma_clip_max s) dt) (qcum_neg a) q = Inr (qcum_neg a')"
    by (rule flowline_step_reads) simp
  note c' = np_inplace_Inr[OF c] and p' = np_inplace_Inr[OF p] and n' = np_inplace_Inr[OF n]
  have l: "length (qcum a') = length (qcum a)" "length (qcum_pos a') = length (qcum a)"
    "length (qcum_neg a') = length (qcum a)"
    using c' p' n' lp ln by simp_all
  have "qcum_pos a' ! j - qcum_neg a' ! j = qcum a' ! j" if j: "j < length (qcum a')" for j
  proof -
    let ?x = "q ! (if length q = length (qcum a) then j else 0)"
    from j l have j1: "j < length (qcum a)" by simp
    have "qcum a' ! j = qcum a ! j + ma_times ?x dt"
      using c' j1 by blast
    moreover have "qcum_pos a' ! j = qcum_pos a ! j + ma_times (ma_clip_min ?x) dt"
      using p' j1 lp by simp
    moreover have "qcum_neg a' ! j = qcum_neg a ! j - ma_times (ma_clip_max ?x) dt"
      using n' j1 ln by simp
    moreover have "qcum_pos a ! j - qcum_neg a ! j = qcum a ! j" using inv j1 by blast
    ultimately show ?thesis using ma_clip_parts[of ?x dt] by linarith
  qed
  with l show ?thesis by simp
qed

lemma flowline_loop_conservation:
  "flowline_loop ds False False False si ei i prev ts a = Inr a' \<Longrightarrow>
   length (qcum_pos a) = length (qcum a) \<Longrightarrow> length (qcum_neg a) = length (qcum a) \<Longrightarrow>
   \<forall>j < length (qcum a). qcum_pos a ! j - qcum_neg a ! j = qcum a ! j \<Longrightarrow>
   length (qcum_pos a') = length (qcum a') \<and> length (qcum_neg a') = length (qcum a') \<and>
   (\<forall>j < length (qcum a'). qcum_pos a' ! j - qcum_neg a' ! j = qcum a' ! j)"
proof (induction ts arbitrary: i prev a)
  case Nil
  then show ?case by simp
next
  case (Cons t ts)
  from Cons.prems(1) obtain b where
    step: "flowline_step ds False False False si ei i (t - prev) a = Inr b"
    and rest: "flowline_loop ds False False False si ei (i + 1) t ts b = Inr a'"
    by (auto split: sum.splits)
  from flowline_step_conservation[OF step Cons.prems(2,3,4)]
  have "length (qcum_pos b) = length (qcum b)" "length (qcum_neg b) = length (qcum b)"
    "\<forall>j < length (qcum b). qcum_pos b ! j - qcum_neg b ! j = qcum b ! j"
    by blast+
  from Cons.IH[OF rest this] show ?case .
qed

lemma rounding_tolerance:
  assumes "p - n = (c::real)"
  shows "\<bar>py_round p 3 - py_round n 3 - py_round c 3\<bar> \<le> 3 / 2000"
proof -
  have e: "1 / (2 * 10 ^ 3) = (1 / 2000 :: real)" by simp
  have "\<bar>py_round p 3 - p\<bar> \<le> 1 / 2000" "\<bar>py_round n 3 - n\<bar> \<le> 1 / 2000"
    "\<bar>py_round c 3 - c\<bar> \<le> 1 / 2000"
    using py_round_error[of p 3] py_round_error[of n 3] py_round_error[of c 3]
    unfolding e by blast+
  with assms show ?thesis by linarith
qed

text \<open>
  C5. When none of the aggregates \<^verbatim>\<open>q_cum\<close>, \<^verbatim>\<open>q_cum_positive\<close>, \<^verbatim>\<open>q_cum_negative\<close> is
  available, every flowline row written has \<open>cum_discharge_positive - cum_discharge_negative\<close>
  equal to \<open>cum_discharge\<close> up to the rounding of the three values to three decimals:
  before rounding the two sides are equal (\<open>flowline_loop_conservation\<close>), so the
  written values differ by at most three half units of the last decimal.
\<close>

theorem discharge_conservation:
  assumes "''q_cum'' \<notin> set (get_available_variables ds)"
    and "''q_cum_positive'' \<notin> set (get_available_variables ds)"
    and "''q_cum_negative'' \<notin> set (get_available_variables ds)"
    and calc: "calc_flowline_statistics ds flowlines = Inr rows"
    and r: "r \<in> set rows"
  shows "\<exists>c p n. cum_discharge r = Some c \<and> cum_discharge_positive r = Some p \<and>
           cum_discharge_negative r = Some n \<and> \<bar>p - n - c\<bar> \<le> 3 / 2000"
proof -
  from calc obtain qc gc qp gp qn gn a qend vend hs he where
    g: "get_agg_cum_if_available ds ''q_cum'' = Inr (qc, gc)"
      "get_agg_cum_if_available ds ''q_cum_positive'' = Inr (qp, gp)"
      "get_agg_cum_if_available ds ''q_cum_negative'' = Inr (qn, gn)"
    and loop: "flowline_loop ds gc gp gn (map start_node_idx flowlines)
       (map end_node_idx flowlines) 0 0 (timestamps ds) (initial_flow_acc ds qc qp qn) = Inr a"
    and rows: "flowline_rows a qend vend hs he 0 flowlines = Inr rows"
    by (rule calc_flowline_statistics_loop)
  from g assms(1,2,3) have v: "qc = replicate (nFlowLine ds) 0" "gc = False"
    "qp = replicate (nFlowLine ds) 0" "gp = False" "qn = replicate (nFlowLine ds) 0" "gn = False"
    by (simp_all add: no_aggregate)
  have inv: "length (qcum_pos a) = length (qcum a) \<and> length (qcum_neg a) = length (qcum a) \<and>
     (\<forall>j < length (qcum a). qcum_pos a ! j - qcum_neg a ! j = qcum a ! j)"
    using loop unfolding v
    by (rule flowline_loop_conservation) (simp_all add: initial_flow_acc_def)
  from flowline_rows_cum[OF rows r] obtain k where k: "k < length (qcum a)"
    and c: "cum_discharge r = Some (py_round (qcum a ! k) 3)"
    and p: "cum_discharge_positive r = Some (py_round (qcum_pos a ! k) 3)"
    and n: "cum_discharge_negative r = Some (py_round (qcum_neg a ! k) 3)"
    by blast
  from inv k have "qcum_pos a ! k - qcum_neg a ! k = qcum a ! k" by blast
  from rounding_tolerance[OF this] c p n show ?thesis by blast
qed

theorem discharge_conservation_witness:
  "\<exists>r. calc_flowline_statistics flow_example_ds [flow_example_line] = Inr [r] \<and>
       cum_discharge r = Some 20 \<and> cum_discharge_positive r = Some 40 \<and>
       cum_discharge_negative r = Some 20 \<and> \<bar>40 - 20 - 20 :: real\<bar> \<le> 3 / 2000"
proof -
  from flow_example_rows obtain r where
    calc: "calc_flowline_statistics flow_example_ds [flow_example_line] = Inr [r]"
    and v: "cum_discharge r = Some 20" "cum_discharge_positive r = Some 40"
      "cum_discharge_negative r = Some 20"
    by blast
  have na: "''q_cum'' \<notin> set (get_available_variables flow_example_ds)"
    "''q_cum_positive'' \<notin> set (get_available_variables flow_example_ds)"
    "''q_cum_negative'' \<notin> set (get_available_variables flow_example_ds)"
    by (simp_all add: flow_example_ds_def)
  have m: "r \<in> set [r]" by simp
  from discharge_conservation[OF na calc m] v
  have "\<bar>40 - 20 - 20 :: real\<bar> \<le> 3 / 2000" by auto
  with calc v show ?thesis by blast
qed

lemma flowline_step_neg_nonneg:
  assumes step: "flowline_step ds gc gp False si ei i dt a = Inr a'"
    and dt: "0 \<le> dt"
    and inv: "\<forall>j < length (qcum_neg a). 0 \<le> qcum_neg a ! j"
  shows "\<forall>j < length (qcum_neg a'). 0 \<le> qcum_neg a' ! j"
proof -
  from step obtain q where
    n: "np_inplace (\<lambda>c s. c - ma_times (ma_clip_max s) dt) (qcum_neg a) q = Inr (qcum_neg a')"
    by (rule flowline_step_reads) simp
  note n' = np_inplace_Inr[OF n]
  have "0 \<le> qcum_neg a' ! j" if j: "j < length (qcum_neg a')" for j
  proof -
    let ?x = "q ! (if length q = length (qcum_neg a) then j else 0)"
    from j n' have j1: "j < length (qcum_neg a)" by simp
    have "qcum_neg a' ! j = qcum_neg a ! j - ma_times (ma_clip_max ?x) dt"
      using n' j1 by blast
    moreover have "0 \<le> qcum_neg a ! j" using inv j1 by blast
    ultimately show ?thesis using ma_clip_max_nonpos[OF dt, of ?x] by linarith
  qed
  then show ?thesis by blast
qed

lemma flowline_loop_neg_nonneg:
  "flowline_loop ds gc gp False si ei i prev ts a = Inr a' \<Longrightarrow> sorted (prev # ts) \<Longrightarrow>
   \<forall>j < length (qcum_neg a). 0 \<le> qcum_neg a ! j \<Longrightarrow>
   \<forall>j < length (qcum_neg a'). 0 \<le> qcum_neg a' ! j"
proof (induction ts arbitrary: i prev a)
  case Nil
  then show ?case by simp
next
  case (Cons t ts)
  from Cons.prems(1) obtain b where
    step: "flowline_step ds gc gp False si ei i (t - prev) a = Inr b"
    and rest: "flowline_loop ds gc gp False si ei (i + 1) t ts b = Inr a'"
    by (auto split: sum.splits)
  from Cons.prems(2) have dt: "0 \<le> t - prev" and s: "sorted (t # ts)" by simp_all
  from flowline_step_neg_nonneg[OF step dt Cons.prems(3)]
  have "\<forall>j < length (qcum_neg b). 0 \<le> qcum_neg b ! j" .
  from Cons.IH[OF rest s this] show ?case .
qed

text \<open>
  C10 (as the code has it). When the aggregate \<^verbatim>\<open>q_cum_negative\<close> is not available, the
  timestamps are strictly increasing and the first timestamp is not negative, the
  \<open>cum_discharge_negative\<close> of every flowline row written is not negative.
\<close>

theorem negative_discharge_nonneg:
  assumes na: "''q_cum_negative'' \<notin> set (get_available_variables ds)"
    and inc: "sorted_wrt (<) (timestamps ds)"
    and first: "timestamps ds \<noteq> [] \<longrightarrow> 0 \<le> hd (timestamps ds)"
    and calc: "calc_flowline_statistics ds flowlines = Inr rows"
    and r: "r \<in> set rows"
  shows "\<exists>n. cum_discharge_negative r = Some n \<and> 0 \<le> n"
proof -
  from calc obtain qc gc qp gp qn gn a qend vend hs he where
    g: "get_agg_cum_if_available ds ''q_cum_negative'' = Inr (qn, gn)"
    and loop: "flowline_loop ds gc gp gn (map start_node_idx flowlines)
       (map end_node_idx flowlines) 0 0 (timestamps ds) (initial_flow_acc ds qc qp qn) = Inr a"
    and rows: "flowline_rows a qend vend hs he 0 flowlines = Inr rows"
    by (rule calc_flowline_statistics_loop)
  from g na have v: "qn = replicate (nFlowLine ds) 0" "gn = False"
    by (simp_all add: no_aggregate)
  have "sorted (timestamps ds)"
    using inc by (rule strict_sorted_imp_sorted)
  with first have s: "sorted (0 # timestamps ds)"
    by (cases "timestamps ds") auto
  have inv: "\<forall>j < length (qcum_neg a). 0 \<le> qcum_neg a ! j"
    using loop s unfolding v
    by (rule flowline_loop_neg_nonneg) (simp add: initial_flow_acc_def)
  from flowline_rows_cum[OF rows r] obtain k where k: "k < length (qcum_neg a)"
    and n: "cum_discharge_negative r = Some (py_round (qcum_neg a ! k) 3)"
    by blast
  from inv k have "0 \<le> qcum_neg a ! k" by blast
  from py_round_nonneg[OF this] n show ?thesis by simp
qed

theorem negative_discharge_nonneg_witness:
  "\<exists>r. calc_flowline_statistics flow_example_ds [flow_example_line] = Inr [r] \<and>
       cum_discharge_negative r = Some 20 \<and> 0 \<le> (20::real)"
proof -
  from flow_example_rows obtain r where
    calc: "calc_flowline_statistics flow_example_ds [flow_example_line] = Inr [r]"
    and v: "cum_discharge_negative r = Some 20"
    by blast
  have na: "''q_cum_negative'' \<notin> set (get_available_variables flow_example_ds)"
    and inc: "sorted_wrt (<) (timestamps flow_example_ds)"
    and first: "timestamps flow_example_ds \<noteq> [] \<longrightarrow> 0 \<le> hd (timestamps flow_example_ds)"
    by (simp_all add: flow_example_ds_def)
  have m: "r \<in> set [r]" by simp
  from negative_discharge_nonneg[OF na inc first calc m] v
  have "0 \<le> (20::real)" by auto
  with calc v show ?thesis by blast
qed

text \<open>
  Strictly increasing timestamps alone do not suffice: the first pass uses the first
  timestamp itself as the elapsed time, so a run that starts at -10 seconds turns a
  negative discharge into a negative entry.
\<close>

theorem negative_first_timestep:
  "sorted_wrt (<) (timestamps negative_start_ds) \<and>
   ''q_cum_negative'' \<notin> set (get_available_variables negative_start_ds) \<and>
   (\<exists>r. calc_flowline_statistics negative_start_ds [flow_example_line] = Inr [r] \<and>
        cum_discharge_negative r = Some (- 10))"
  by (simp add: calc_flowline_statistics_def get_agg_cum_if_available_def flow_example_ds_def
      flow_example_line_def negative_start_ds_def series_read_def unmasked_def py_index_def
      initial_flow_acc_def flowline_step_def bind_err_def np_inplace_def np_binary_def
      np_take_array_def update_dh_max_def ma_times_def ma_clip_min_def ma_clip_max_def
      ma_abs_def ma_maximum_def round_element_def flowline_stats_row_def py_round_def)

end
